theory Spec2Isabelle
  imports Main "HOL-Library.Word"
begin

section \<open>Message handlers of the wasm keeper (x/wasm/keeper/handler_plugin.go)\<close>

text \<open>
  The file defines four message handlers: \<open>SDKMessageHandler\<close>, \<open>IBCRawPacketHandler\<close>,
  the burn handler built by \<open>NewBurnCoinMessageHandler\<close>, and \<open>MessageHandlerChain\<close>, which
  tries a list of handlers in order.

  Conventions of the embedding.
  \<^item> \<open>sdk.Context\<close> is the type variable \<open>'s\<close>: the ledger state reached through the context.
    A call that can write (a route handler, \<open>SendPacket\<close>, the two \<open>Burner\<close> methods, a
    \<open>Messenger\<close>) takes the state and returns the new one; the getters of the keepers, the
    route lookups and the encoder only read it.
  \<^item> A Go \<open>error\<close> result is an \<open>error option\<close>, \<open>None\<close> being \<open>nil\<close>. A getter that returns
    \<open>(value, found)\<close> returns that pair. A pointer that the code compares with \<open>nil\<close> or
    passes on is an \<open>option\<close>.
  \<^item> Interface values held by the handlers (routers, keepers, encoder, burner) are taken to
    be non-nil, except \<open>msgRouter\<close>, which the code tests, and the handlers of a chain, which
    \<open>NewMessageHandlerChain\<close> tests: those are values of \<open>MessengerValue\<close> below.
  \<^item> \<open>nil\<close> slices and empty slices are both \<open>[]\<close>.
\<close>

subsection \<open>Basic types\<close>

type_synonym bytes = "8 word list"
type_synonym uint64 = "64 word"

text \<open>\<open>sdk.AccAddress\<close> is a byte slice; \<open>Equals\<close> compares the bytes (two empty addresses are equal).\<close>

type_synonym AccAddress = bytes

definition Equals :: "AccAddress \<Rightarrow> AccAddress \<Rightarrow> bool" where
  "Equals aa aa2 = (if aa = [] \<and> aa2 = [] then True else aa = aa2)"

subsection \<open>Errors\<close>

text \<open>
  The registered errors the file names (\<open>types.ErrUnknownMsg\<close>, \<open>types.ErrUnsupportedForContract\<close>,
  \<open>types.ErrEmpty\<close>, \<open>sdkerrors.ErrUnauthorized\<close>, \<open>sdkerrors.ErrPanic\<close>,
  \<open>sdkerrors.ErrUnknownRequest\<close>, and three of \<open>channeltypes\<close>), any other error a collaborator
  may return (\<open>ErrOther\<close>), and \<open>sdkerrors.Wrap err description\<close>, which keeps the wrapped
  error as its cause. \<open>sdkerrors.Wrapf\<close> is \<open>Wrap\<close> with the formatted description.
\<close>

datatype error =
    ErrUnknownMsg
  | ErrUnsupportedForContract
  | ErrEmpty
  | ErrUnauthorized
  | ErrPanic
  | ErrUnknownRequest
  | ErrSequenceSendNotFound
  | ErrInvalidChannel
  | ErrChannelCapabilityNotFound
  | ErrOther string
  | Wrap error string

text \<open>
  \<open>errors.Is err target\<close> for a registered \<open>target\<close>: it follows the chain of causes of \<open>err\<close>
  down to the registered error at its root and compares that one with \<open>target\<close>.
\<close>

fun errors_Is :: "error \<Rightarrow> error \<Rightarrow> bool" where
  "errors_Is (Wrap e description) target = errors_Is e target"
| "errors_Is e target = (e = target)"

subsection \<open>Messages of the contract (wasmvmtypes)\<close>

record Coin =
  Denom :: string
  Amount :: string

record SendMsg =
  ToAddress :: string
  Send_Amount :: "Coin list"

record BurnMsg =
  Burn_Amount :: "Coin list"

record BankMsg =
  Send :: "SendMsg option"
  Burn :: "BurnMsg option"

record IBCTimeoutBlock =
  Revision :: uint64
  Height :: uint64

record IBCTimeout =
  Block :: "IBCTimeoutBlock option"
  Timestamp :: uint64

record SendPacketMsg =
  ChannelID :: string
  Data :: bytes
  Timeout :: IBCTimeout

record CloseChannelMsg =
  Close_ChannelID :: string

record IBCMsg =
  SendPacket :: "SendPacketMsg option"
  CloseChannel :: "CloseChannelMsg option"

text \<open>
  \<open>CosmosMsg\<close> has one pointer field per variant. The file reads \<open>Bank\<close> and \<open>IBC\<close>; the other
  variants (Custom, Distribution, Gov, Staking, Stargate, Wasm) reach only the encoder and are
  kept as one opaque payload.
\<close>

record CosmosMsg =
  Bank :: "BankMsg option"
  IBC :: "IBCMsg option"
  Other :: bytes

subsection \<open>Host operations and results (sdk)\<close>

text \<open>
  An \<open>sdk.Msg\<close> is an interface value; the model holds what its methods return.
  \<open>LegacyRoute\<close> is \<open>Some r\<close> when the value also implements \<open>legacytx.LegacyMsg\<close> and its
  \<open>Route()\<close> is \<open>r\<close>, and \<open>None\<close> when the type assertion fails. \<open>TypeURL\<close> identifies the
  message kind for the routers and \<open>Rendering\<close> is the text \<open>%+v\<close> prints for it.
\<close>

record Msg =
  TypeURL :: string
  Rendering :: string
  ValidateBasic :: "error option"
  GetSigners :: "AccAddress list"
  LegacyRoute :: "string option"

text \<open>\<open>sdk.Coins\<close>: coins of the host, a denomination and an amount each.\<close>

type_synonym Coins = "(string \<times> int) list"

type_synonym Event = "string \<times> (string \<times> string) list"

record Result =
  Result_Data :: bytes
  Result_Log :: string
  Result_Events :: "Event list"

text \<open>What a \<open>Messenger\<close> returns: \<open>(events, data, err)\<close>.\<close>

type_synonym DispatchResult = "Event list \<times> bytes list \<times> error option"

type_synonym 's Messenger =
  "'s \<Rightarrow> AccAddress \<Rightarrow> string \<Rightarrow> CosmosMsg \<Rightarrow> DispatchResult \<times> 's"

subsection \<open>IBC types (channeltypes, clienttypes, capabilitytypes)\<close>

record Counterparty =
  PortId :: string
  ChannelId :: string

record Channel =
  Channel_State :: nat
  Ordering :: nat
  Channel_Counterparty :: Counterparty
  ConnectionHops :: "string list"
  Version :: string

record ClientHeight =
  RevisionNumber :: uint64
  RevisionHeight :: uint64

record Capability =
  Index :: uint64

record Packet =
  Sequence :: uint64
  SourcePort :: string
  SourceChannel :: string
  DestinationPort :: string
  DestinationChannel :: string
  Packet_Data :: bytes
  TimeoutHeight :: ClientHeight
  TimeoutTimestamp :: uint64

text \<open>\<open>channeltypes.NewPacket\<close> stores each argument in the field of its name.\<close>

definition NewPacket ::
  "bytes \<Rightarrow> uint64 \<Rightarrow> string \<Rightarrow> string \<Rightarrow> string \<Rightarrow> string \<Rightarrow> ClientHeight \<Rightarrow> uint64 \<Rightarrow> Packet" where
  "NewPacket data sequence sourcePort sourceChannel destinationPort destinationChannel
     timeoutHeight timeoutTimestamp =
   \<lparr>Sequence = sequence, SourcePort = sourcePort, SourceChannel = sourceChannel,
    DestinationPort = destinationPort, DestinationChannel = destinationChannel,
    Packet_Data = data, TimeoutHeight = timeoutHeight, TimeoutTimestamp = timeoutTimestamp\<rparr>"

subsection \<open>Collaborators\<close>

text \<open>
  The methods of \<open>types.ChannelKeeper\<close>, \<open>types.CapabilityKeeper\<close> and \<open>types.Burner\<close> that
  the file calls. \<open>SendPacketK\<close> is the channel keeper's \<open>SendPacket\<close>, the name being taken by
  the field of \<open>IBCMsg\<close>.
\<close>

record 's ChannelKeeper =
  GetChannel :: "'s \<Rightarrow> string \<Rightarrow> string \<Rightarrow> Channel \<times> bool"
  GetNextSequenceSend :: "'s \<Rightarrow> string \<Rightarrow> string \<Rightarrow> uint64 \<times> bool"
  SendPacketK :: "'s \<Rightarrow> Capability option \<Rightarrow> Packet \<Rightarrow> error option \<times> 's"

record 's CapabilityKeeper =
  GetCapability :: "'s \<Rightarrow> string \<Rightarrow> Capability option \<times> bool"

record 's Burner =
  BurnCoins :: "'s \<Rightarrow> string \<Rightarrow> Coins \<Rightarrow> error option \<times> 's"
  SendCoinsFromAccountToModule ::
    "'s \<Rightarrow> AccAddress \<Rightarrow> string \<Rightarrow> Coins \<Rightarrow> error option \<times> 's"

text \<open>
  Functions and constants the file uses and does not define. They are parameters of the
  model: \<open>convertWasmIBCTimeoutHeightToCosmosHeight\<close>, \<open>convertWasmCoinsToSdkCoins\<close>
  and \<open>moduleLogger\<close> (other files of the keeper package), \<open>types.ModuleName\<close>, and
  \<open>host.ChannelCapabilityPath\<close>. \<open>logInfo ctx msg key coins\<close> is
  \<open>moduleLogger(ctx).Info(msg, key, coins)\<close>.
\<close>

record 's Package =
  convertWasmIBCTimeoutHeightToCosmosHeight :: "IBCTimeoutBlock option \<Rightarrow> ClientHeight"
  convertWasmCoinsToSdkCoins :: "Coin list \<Rightarrow> Coins \<times> error option"
  ModuleName :: string
  ChannelCapabilityPath :: "string \<Rightarrow> string \<Rightarrow> string"
  logInfo :: "'s \<Rightarrow> string \<Rightarrow> string \<Rightarrow> Coins \<Rightarrow> 's"

subsection \<open>IBCRawPacketHandler\<close>

record 's IBCRawPacketHandler =
  channelKeeper :: "'s ChannelKeeper"
  capabilityKeeper :: "'s CapabilityKeeper"

definition NewIBCRawPacketHandler ::
  "'s ChannelKeeper \<Rightarrow> 's CapabilityKeeper \<Rightarrow> 's IBCRawPacketHandler" where
  "NewIBCRawPacketHandler chk cak = \<lparr>channelKeeper = chk, capabilityKeeper = cak\<rparr>"

definition IBCRawPacketHandler_DispatchMsg ::
  "'s Package \<Rightarrow> 's IBCRawPacketHandler \<Rightarrow> 's Messenger" where
  "IBCRawPacketHandler_DispatchMsg pkg h ctx contractAddr contractIBCPortID msg =
    (case IBC msg of
       None \<Rightarrow> (([], [], Some ErrUnknownMsg), ctx)
     | Some ibc \<Rightarrow>
    (case SendPacket ibc of
       None \<Rightarrow> (([], [], Some ErrUnknownMsg), ctx)
     | Some sp \<Rightarrow>
    if contractIBCPortID = [] then
      (([], [], Some (Wrap ErrUnsupportedForContract ''ibc not supported'')), ctx)
    else
    let contractIBCChannelID = ChannelID sp in
    if contractIBCChannelID = [] then
      (([], [], Some (Wrap ErrEmpty ''ibc channel'')), ctx)
    else
    let (sequence, found) =
          GetNextSequenceSend (channelKeeper h) ctx contractIBCPortID contractIBCChannelID in
    if \<not> found then
      (([], [], Some (Wrap ErrSequenceSendNotFound
         (''source port: '' @ contractIBCPortID @ '', source channel: '' @ contractIBCChannelID))),
       ctx)
    else
    let (channelInfo, ok) =
          GetChannel (channelKeeper h) ctx contractIBCPortID contractIBCChannelID in
    if \<not> ok then
      (([], [], Some (Wrap ErrInvalidChannel ''not found'')), ctx)
    else
    let (channelCap, ok) =
          GetCapability (capabilityKeeper h) ctx
            (ChannelCapabilityPath pkg contractIBCPortID contractIBCChannelID) in
    if \<not> ok then
      (([], [], Some (Wrap ErrChannelCapabilityNotFound
         ''module does not own channel capability'')), ctx)
    else
    let packet = NewPacket
          (Data sp)
          sequence
          contractIBCPortID
          contractIBCChannelID
          (PortId (Channel_Counterparty channelInfo))
          (ChannelId (Channel_Counterparty channelInfo))
          (convertWasmIBCTimeoutHeightToCosmosHeight pkg (Block (Timeout sp)))
          (Timestamp (Timeout sp));
        (err, ctx') = SendPacketK (channelKeeper h) ctx channelCap packet
    in (([], [], err), ctx')))"

subsection \<open>The burn handler\<close>

definition NewBurnCoinMessageHandler :: "'s Package \<Rightarrow> 's Burner \<Rightarrow> 's Messenger" where
  "NewBurnCoinMessageHandler pkg burner = (\<lambda>ctx contractAddr contractIBCPortID msg.
    case Bank msg of
      None \<Rightarrow> (([], [], Some ErrUnknownMsg), ctx)
    | Some bank \<Rightarrow>
    (case Burn bank of
      None \<Rightarrow> (([], [], Some ErrUnknownMsg), ctx)
    | Some burn \<Rightarrow>
    (case convertWasmCoinsToSdkCoins pkg (Burn_Amount burn) of
      (coins, Some err) \<Rightarrow> (([], [], Some err), ctx)
    | (coins, None) \<Rightarrow>
    (case SendCoinsFromAccountToModule burner ctx contractAddr (ModuleName pkg) coins of
      (Some err, ctx1) \<Rightarrow> (([], [], Some (Wrap err ''transfer to module'')), ctx1)
    | (None, ctx1) \<Rightarrow>
    (case BurnCoins burner ctx1 (ModuleName pkg) coins of
      (Some err, ctx2) \<Rightarrow> (([], [], Some (Wrap err ''burn coins'')), ctx2)
    | (None, ctx2) \<Rightarrow>
      (([], [], None), logInfo pkg ctx2 ''Burned'' ''amount'' coins))))))"

subsection \<open>SDKMessageHandler\<close>

text \<open>
  A route handler (\<open>sdk.Handler\<close>, \<open>baseapp.MsgServiceHandler\<close>) returns an error or a
  result. \<open>router h ctx path\<close> is \<open>h.router.Route(ctx, path)\<close> and, for a non-nil
  \<open>msgRouter\<close>, \<open>mr msg\<close> is \<open>h.msgRouter.Handler(msg)\<close>; both give \<open>None\<close> for a nil
  handler. \<open>encoders h\<close> is \<open>h.encoders.Encode\<close>.
\<close>

type_synonym 's Handler = "'s \<Rightarrow> Msg \<Rightarrow> (error + Result) \<times> 's"

record 's SDKMessageHandler =
  router :: "'s \<Rightarrow> string \<Rightarrow> 's Handler option"
  msgRouter :: "(Msg \<Rightarrow> 's Handler option) option"
  encoders :: "'s \<Rightarrow> AccAddress \<Rightarrow> string \<Rightarrow> CosmosMsg \<Rightarrow> Msg list \<times> error option"

definition NewSDKMessageHandler ::
  "('s \<Rightarrow> string \<Rightarrow> 's Handler option) \<Rightarrow> (Msg \<Rightarrow> 's Handler option) option \<Rightarrow>
   ('s \<Rightarrow> AccAddress \<Rightarrow> string \<Rightarrow> CosmosMsg \<Rightarrow> Msg list \<times> error option) \<Rightarrow> 's SDKMessageHandler" where
  "NewSDKMessageHandler r mr enc = \<lparr>router = r, msgRouter = mr, encoders = enc\<rparr>"

text \<open>
  The loop over \<open>msg.GetSigners()\<close> in \<open>handleSdkMessage\<close>: \<open>True\<close> when it leaves the
  function with the Unauthorized error, \<open>False\<close> when it runs to its end.
\<close>

fun signerRejected :: "AccAddress list \<Rightarrow> AccAddress \<Rightarrow> bool" where
  "signerRejected [] contractAddr = False"
| "signerRejected (acct # accts) contractAddr =
     (if \<not> Equals acct contractAddr then True else signerRejected accts contractAddr)"

definition handleSdkMessage ::
  "'s SDKMessageHandler \<Rightarrow> 's \<Rightarrow> AccAddress \<Rightarrow> Msg \<Rightarrow> (error + Result) \<times> 's" where
  "handleSdkMessage h ctx contractAddr msg =
    (case ValidateBasic msg of
      Some err \<Rightarrow> (Inl err, ctx)
    | None \<Rightarrow>
    if signerRejected (GetSigners msg) contractAddr then
      (Inl (Wrap ErrUnauthorized ''contract doesn't have permission''), ctx)
    else
    (case msgRouter h of
      None \<Rightarrow> (Inl (Wrap ErrPanic ''>>> msgRouter is nil!!!''), ctx)
    | Some mr \<Rightarrow>
    (case mr msg of
      Some handler \<Rightarrow> handler ctx msg
    | None \<Rightarrow>
    (case LegacyRoute msg of
      Some route \<Rightarrow>
        (case router h ctx route of
          None \<Rightarrow> (Inl (Wrap ErrUnknownRequest
                     (''unrecognized message route: '' @ route @ ''; message'')), ctx)
        | Some handler \<Rightarrow> handler ctx msg)
    | None \<Rightarrow>
        (Inl (Wrap ErrUnknownRequest (''can't route message '' @ Rendering msg)), ctx)))))"

text \<open>
  The loop of \<open>SDKMessageHandler.DispatchMsg\<close> over the encoded messages, with the
  accumulated \<open>events\<close> and \<open>data\<close>. The conversion \<open>sdk.Event(res.Events[i])\<close> only
  renames the type.
\<close>

fun dispatchLoop ::
  "'s SDKMessageHandler \<Rightarrow> AccAddress \<Rightarrow> Msg list \<Rightarrow> Event list \<Rightarrow> bytes list \<Rightarrow> 's
   \<Rightarrow> DispatchResult \<times> 's" where
  "dispatchLoop h contractAddr [] events data ctx = ((events, data, None), ctx)"
| "dispatchLoop h contractAddr (sdkMsg # sdkMsgs) events data ctx =
    (case handleSdkMessage h ctx contractAddr sdkMsg of
      (Inl err, ctx') \<Rightarrow> (([], [], Some err), ctx')
    | (Inr res, ctx') \<Rightarrow>
        dispatchLoop h contractAddr sdkMsgs
          (events @ Result_Events res) (data @ [Result_Data res]) ctx')"

definition SDKMessageHandler_DispatchMsg :: "'s SDKMessageHandler \<Rightarrow> 's Messenger" where
  "SDKMessageHandler_DispatchMsg h ctx contractAddr contractIBCPortID msg =
    (case encoders h ctx contractAddr contractIBCPortID msg of
      (sdkMsgs, Some err) \<Rightarrow> (([], [], Some err), ctx)
    | (sdkMsgs, None) \<Rightarrow> dispatchLoop h contractAddr sdkMsgs [] [] ctx)"

subsection \<open>MessageHandlerChain\<close>

text \<open>
  A handler of the chain is a value of the interface type \<open>Messenger\<close>:
  \<^item> \<open>NilInterface\<close> is the nil interface value, the only one for which \<open>== nil\<close> holds;
  \<^item> \<open>NilInside\<close> is a non-nil interface value that holds a nil function or a nil pointer,
    such as \<open>MessageHandlerFunc(nil)\<close>, which the file itself writes as a \<open>Messenger\<close>:
    \<open>== nil\<close> is false for it, and calling its \<open>DispatchMsg\<close> dereferences nil;
  \<^item> \<open>Callable h\<close> is any other value, \<open>h\<close> being its \<open>DispatchMsg\<close>.

  A Go panic is a value of type \<open>panic\<close>: \<open>NilHandlerAt i\<close> is the panic of
  \<open>NewMessageHandlerChain\<close>, with the message "handler must not be nil at position : i", and
  \<open>NilDereference\<close> is the runtime's panic for a nil dereference.
\<close>

datatype 's MessengerValue =
    NilInterface
  | NilInside
  | Callable "'s Messenger"

datatype panic = NilHandlerAt nat | NilDereference

record 's MessageHandlerChain =
  handlers :: "'s MessengerValue list"

text \<open>
  The loop of \<open>NewMessageHandlerChain\<close> from position \<open>i\<close>: the first position whose
  handler \<open>== nil\<close> holds for, if any.
\<close>

fun nilPosition :: "nat \<Rightarrow> 's MessengerValue list \<Rightarrow> nat option" where
  "nilPosition i [] = None"
| "nilPosition i (NilInterface # hs) = Some i"
| "nilPosition i (NilInside # hs) = nilPosition (Suc i) hs"
| "nilPosition i (Callable h # hs) = nilPosition (Suc i) hs"

definition NewMessageHandlerChain ::
  "'s MessengerValue \<Rightarrow> 's MessengerValue list \<Rightarrow> panic + 's MessageHandlerChain" where
  "NewMessageHandlerChain first others =
    (let r = \<lparr>handlers = [first] @ others\<rparr> in
     case nilPosition 0 (handlers r) of
       Some i \<Rightarrow> Inl (NilHandlerAt i)
     | None \<Rightarrow> Inr r)"

text \<open>The loop of \<open>MessageHandlerChain.DispatchMsg\<close> over the handlers that are left.\<close>

fun chainLoop ::
  "'s MessengerValue list \<Rightarrow> 's \<Rightarrow> AccAddress \<Rightarrow> string \<Rightarrow> CosmosMsg
   \<Rightarrow> panic + DispatchResult \<times> 's" where
  "chainLoop [] ctx contractAddr contractIBCPortID msg =
     Inr (([], [], Some (Wrap ErrUnknownMsg ''no handler found'')), ctx)"
| "chainLoop (NilInterface # hs) ctx contractAddr contractIBCPortID msg = Inl NilDereference"
| "chainLoop (NilInside # hs) ctx contractAddr contractIBCPortID msg = Inl NilDereference"
| "chainLoop (Callable h # hs) ctx contractAddr contractIBCPortID msg =
    (case h ctx contractAddr contractIBCPortID msg of
      ((events, data, None), ctx') \<Rightarrow> Inr ((events, data, None), ctx')
    | ((events, data, Some err), ctx') \<Rightarrow>
        if errors_Is err ErrUnknownMsg then chainLoop hs ctx' contractAddr contractIBCPortID msg
        else Inr ((events, data, Some err), ctx'))"

definition MessageHandlerChain_DispatchMsg ::
  "'s MessageHandlerChain \<Rightarrow> 's \<Rightarrow> AccAddress \<Rightarrow> string \<Rightarrow> CosmosMsg
   \<Rightarrow> panic + DispatchResult \<times> 's" where
  "MessageHandlerChain_DispatchMsg m ctx contractAddr contractIBCPortID msg =
     chainLoop (handlers m) ctx contractAddr contractIBCPortID msg"

subsection \<open>The default handler\<close>

text \<open>
  \<open>NewDefaultMessageHandler\<close> chains the three handlers above. \<open>enc\<close> is the encoder it
  builds from \<open>DefaultEncoders\<close> and the custom encoders merged over them, both defined in
  another file.
\<close>

definition NewDefaultMessageHandler ::
  "'s Package \<Rightarrow> ('s \<Rightarrow> string \<Rightarrow> 's Handler option) \<Rightarrow> (Msg \<Rightarrow> 's Handler option) option \<Rightarrow>
   's ChannelKeeper \<Rightarrow> 's CapabilityKeeper \<Rightarrow> 's Burner \<Rightarrow>
   ('s \<Rightarrow> AccAddress \<Rightarrow> string \<Rightarrow> CosmosMsg \<Rightarrow> Msg list \<times> error option) \<Rightarrow>
   panic + 's MessageHandlerChain" where
  "NewDefaultMessageHandler pkg r mr chk cak bankKeeper enc =
     NewMessageHandlerChain
       (Callable (SDKMessageHandler_DispatchMsg (NewSDKMessageHandler r mr enc)))
       [Callable (IBCRawPacketHandler_DispatchMsg pkg (NewIBCRawPacketHandler chk cak)),
        Callable (NewBurnCoinMessageHandler pkg bankKeeper)]"

section \<open>Notions used to state the properties\<close>

text \<open>
  \<open>handledInOrder h contractAddr ops ctx\<close> handles the operations one after another with
  \<open>handleSdkMessage\<close>, each in the state the one before left: the error of the first
  operation that fails, else the results of all of them, in order.
\<close>

fun handledInOrder ::
  "'s SDKMessageHandler \<Rightarrow> AccAddress \<Rightarrow> Msg list \<Rightarrow> 's \<Rightarrow> (error + Result list) \<times> 's" where
  "handledInOrder h contractAddr [] ctx = (Inr [], ctx)"
| "handledInOrder h contractAddr (op # ops) ctx =
    (case handleSdkMessage h ctx contractAddr op of
      (Inl err, ctx') \<Rightarrow> (Inl err, ctx')
    | (Inr res, ctx') \<Rightarrow>
        (case handledInOrder h contractAddr ops ctx' of
          (Inl err, ctx'') \<Rightarrow> (Inl err, ctx'')
        | (Inr rs, ctx'') \<Rightarrow> (Inr (res # rs), ctx'')))"

text \<open>
  \<open>fallsThrough hs ctx contractAddr contractIBCPortID msg\<close> calls the handlers \<open>hs\<close> one after
  another, each in the state the one before left. It is \<open>Some ctx'\<close> when every one of them
  reports \<open>ErrUnknownMsg\<close>, \<open>ctx'\<close> being the state after the last, and \<open>None\<close> otherwise.
\<close>

fun fallsThrough ::
  "'s Messenger list \<Rightarrow> 's \<Rightarrow> AccAddress \<Rightarrow> string \<Rightarrow> CosmosMsg \<Rightarrow> 's option" where
  "fallsThrough [] ctx contractAddr contractIBCPortID msg = Some ctx"
| "fallsThrough (h # hs) ctx contractAddr contractIBCPortID msg =
    (case h ctx contractAddr contractIBCPortID msg of
      ((events, data, None), ctx') \<Rightarrow> None
    | ((events, data, Some err), ctx') \<Rightarrow>
        if errors_Is err ErrUnknownMsg
        then fallsThrough hs ctx' contractAddr contractIBCPortID msg else None)"

text \<open>\<open>accepts r\<close>: the error of the result \<open>r\<close> is nil or is not \<open>ErrUnknownMsg\<close>.\<close>

fun accepts :: "DispatchResult \<Rightarrow> bool" where
  "accepts (events, data, None) = True"
| "accepts (events, data, Some err) = (\<not> errors_Is err ErrUnknownMsg)"

section \<open>Example collaborators\<close>

text \<open>
  A ledger whose state is the list of the effects made on it so far, and collaborators that
  record each call there.
\<close>

datatype effect =
    Executed string
  | Submitted "Capability option" Packet
  | Transferred AccAddress string Coins
  | Burned string Coins

definition exContract :: AccAddress where
  "exContract = [1, 2, 3]"

definition exStranger :: AccAddress where
  "exStranger = [9]"

definition exPackage :: "effect list Package" where
  "exPackage =
    \<lparr>convertWasmIBCTimeoutHeightToCosmosHeight =
       (\<lambda>b. case b of None \<Rightarrow> \<lparr>RevisionNumber = 0, RevisionHeight = 0\<rparr>
             | Some t \<Rightarrow> \<lparr>RevisionNumber = Revision t, RevisionHeight = Height t\<rparr>),
     convertWasmCoinsToSdkCoins =
       (\<lambda>cs. if cs = [\<lparr>Denom = ''uatom'', Amount = ''100''\<rparr>] then ([(''uatom'', 100)], None)
             else ([], Some (ErrOther ''invalid amount''))),
     ModuleName = ''wasm'',
     ChannelCapabilityPath = (\<lambda>p c. ''capabilities/ports/'' @ p @ ''/channels/'' @ c),
     logInfo = (\<lambda>ctx m k coins. ctx)\<rparr>"

definition exChannel :: Channel where
  "exChannel = \<lparr>Channel_State = 3, Ordering = 1,
     Channel_Counterparty = \<lparr>PortId = ''transfer'', ChannelId = ''channel-7''\<rparr>,
     ConnectionHops = [''connection-0''], Version = ''v1''\<rparr>"

text \<open>The keepers know one channel, \<open>(wasm.C1, channel-0)\<close>; the flags say what is stored for it.\<close>

definition exChannelKeeper :: "bool \<Rightarrow> bool \<Rightarrow> error option \<Rightarrow> effect list ChannelKeeper" where
  "exChannelKeeper hasSequence hasChannel sendErr =
    \<lparr>GetChannel = (\<lambda>ctx p c. (exChannel, hasChannel \<and> p = ''wasm.C1'' \<and> c = ''channel-0'')),
     GetNextSequenceSend = (\<lambda>ctx p c. (42, hasSequence \<and> p = ''wasm.C1'' \<and> c = ''channel-0'')),
     SendPacketK = (\<lambda>ctx cap packet. (sendErr, ctx @ [Submitted cap packet]))\<rparr>"

definition exCapabilityKeeper :: "bool \<Rightarrow> effect list CapabilityKeeper" where
  "exCapabilityKeeper hasCapability =
    \<lparr>GetCapability = (\<lambda>ctx name.
       (Some \<lparr>Index = 5\<rparr>,
        hasCapability \<and> name = ''capabilities/ports/wasm.C1/channels/channel-0''))\<rparr>"

definition exIBC :: "bool \<Rightarrow> bool \<Rightarrow> bool \<Rightarrow> error option \<Rightarrow> effect list IBCRawPacketHandler" where
  "exIBC hasSequence hasChannel hasCapability sendErr =
     NewIBCRawPacketHandler (exChannelKeeper hasSequence hasChannel sendErr)
       (exCapabilityKeeper hasCapability)"

definition exSendPacket :: "string \<Rightarrow> SendPacketMsg" where
  "exSendPacket channel = \<lparr>ChannelID = channel, Data = [1, 2],
     Timeout = \<lparr>Block = Some \<lparr>Revision = 1, Height = 1000\<rparr>, Timestamp = 0\<rparr>\<rparr>"

definition exSendPacketMsg :: "string \<Rightarrow> CosmosMsg" where
  "exSendPacketMsg channel =
     \<lparr>Bank = None,
      IBC = Some \<lparr>SendPacket = Some (exSendPacket channel), CloseChannel = None\<rparr>,
      Other = []\<rparr>"

definition exBurnMsg :: CosmosMsg where
  "exBurnMsg =
     \<lparr>Bank = Some \<lparr>Send = None, Burn = Some \<lparr>Burn_Amount = [\<lparr>Denom = ''uatom'', Amount = ''100''\<rparr>]\<rparr>\<rparr>,
      IBC = None, Other = []\<rparr>"

definition exSendMsg :: CosmosMsg where
  "exSendMsg =
     \<lparr>Bank = Some \<lparr>Send = Some \<lparr>ToAddress = ''bob'', Send_Amount = []\<rparr>, Burn = None\<rparr>,
      IBC = None, Other = []\<rparr>"

definition exCustomMsg :: CosmosMsg where
  "exCustomMsg = \<lparr>Bank = None, IBC = None, Other = [7]\<rparr>"

definition exBurner :: "error option \<Rightarrow> error option \<Rightarrow> effect list Burner" where
  "exBurner transferErr burnErr =
    \<lparr>BurnCoins = (\<lambda>ctx m coins. (burnErr, ctx @ [Burned m coins])),
     SendCoinsFromAccountToModule =
       (\<lambda>ctx a m coins. (transferErr, ctx @ [Transferred a m coins]))\<rparr>"

text \<open>
  A host operation of kind \<open>url\<close>, its result, and a route handler that executes it and
  records through which router it was reached.
\<close>

definition exOp :: "string \<Rightarrow> AccAddress list \<Rightarrow> string option \<Rightarrow> Msg" where
  "exOp url signers route =
     \<lparr>TypeURL = url, Rendering = url, ValidateBasic = None, GetSigners = signers,
      LegacyRoute = route\<rparr>"

definition exResult :: "string \<Rightarrow> Result" where
  "exResult url = \<lparr>Result_Data = [of_nat (length url)], Result_Log = [], Result_Events = [(url, [])]\<rparr>"

definition exExecute :: "string \<Rightarrow> effect list Handler" where
  "exExecute via ctx msg = (Inr (exResult (TypeURL msg)), ctx @ [Executed (via @ TypeURL msg)])"

text \<open>
  A standard handler whose service router knows the kind \<open>/new\<close>, whose legacy route table
  knows the route \<open>old\<close>, and whose encoder turns a bank send into \<open>ops\<close> and knows no
  other message.
\<close>

definition exEncode :: "Msg list \<Rightarrow> effect list \<Rightarrow> AccAddress \<Rightarrow> string \<Rightarrow> CosmosMsg \<Rightarrow> Msg list \<times> error option" where
  "exEncode ops ctx contractAddr contractIBCPortID msg =
    (case Bank msg of
      None \<Rightarrow> ([], Some ErrUnknownMsg)
    | Some bank \<Rightarrow> (case Send bank of None \<Rightarrow> ([], Some ErrUnknownMsg) | Some s \<Rightarrow> (ops, None)))"

definition exSDK :: "bool \<Rightarrow> Msg list \<Rightarrow> effect list SDKMessageHandler" where
  "exSDK hasMsgRouter ops =
     NewSDKMessageHandler
       (\<lambda>ctx route. if route = ''old'' then Some (exExecute ''legacy:'') else None)
       (if hasMsgRouter
        then Some (\<lambda>msg. if TypeURL msg = ''/new'' then Some (exExecute ''service:'') else None)
        else None)
       (exEncode ops)"

text \<open>
  A standard handler whose service router gives every operation a handler that fails after
  it has written to the state, and an operation that fails its own validation.
\<close>

definition exRefuse :: "effect list Handler" where
  "exRefuse ctx msg =
     (Inl (ErrOther ''insufficient funds''), ctx @ [Executed (''refused:'' @ TypeURL msg)])"

definition exSDKRefusing :: "Msg list \<Rightarrow> effect list SDKMessageHandler" where
  "exSDKRefusing ops =
     NewSDKMessageHandler (\<lambda>ctx route. None) (Some (\<lambda>msg. Some exRefuse)) (exEncode ops)"

definition exInvalidOp :: Msg where
  "exInvalidOp = (exOp ''/new'' [exContract] None)\<lparr>ValidateBasic := Some (ErrOther ''invalid amount'')\<rparr>"

section \<open>Properties\<close>

lemmas ex_defs = exPackage_def exChannel_def exChannelKeeper_def exCapabilityKeeper_def exIBC_def
  exSendPacket_def exSendPacketMsg_def NewIBCRawPacketHandler_def

lemmas sdk_defs = exSDK_def exEncode_def NewSDKMessageHandler_def exOp_def exResult_def
  exExecute_def

subsection \<open>The cross-chain packet handler\<close>

text \<open>
  C4. For a send-packet message the checks are made in this order, each failure with its own
  error and the state untouched: an empty \<open>contractIBCPortID\<close> gives
  \<open>ErrUnsupportedForContract\<close>; an empty channel id gives \<open>ErrEmpty\<close>; no next send
  sequence gives \<open>ErrSequenceSendNotFound\<close>, naming the port and the channel; no channel gives
  \<open>ErrInvalidChannel\<close>; no channel capability gives \<open>ErrChannelCapabilityNotFound\<close>. Only
  when all checks pass is a packet handed to \<open>SendPacket\<close>.
\<close>

theorem ibc_precondition_errors:
  assumes "IBC msg = Some ibc" and "SendPacket ibc = Some sp"
  shows
  "(port = [] \<longrightarrow>
      IBCRawPacketHandler_DispatchMsg pkg h ctx contractAddr port msg =
        (([], [], Some (Wrap ErrUnsupportedForContract ''ibc not supported'')), ctx))
   \<and> (port \<noteq> [] \<and> ChannelID sp = [] \<longrightarrow>
      IBCRawPacketHandler_DispatchMsg pkg h ctx contractAddr port msg =
        (([], [], Some (Wrap ErrEmpty ''ibc channel'')), ctx))
   \<and> (port \<noteq> [] \<and> ChannelID sp \<noteq> []
      \<and> \<not> snd (GetNextSequenceSend (channelKeeper h) ctx port (ChannelID sp)) \<longrightarrow>
      IBCRawPacketHandler_DispatchMsg pkg h ctx contractAddr port msg =
        (([], [], Some (Wrap ErrSequenceSendNotFound
           (''source port: '' @ port @ '', source channel: '' @ ChannelID sp))), ctx))
   \<and> (port \<noteq> [] \<and> ChannelID sp \<noteq> []
      \<and> snd (GetNextSequenceSend (channelKeeper h) ctx port (ChannelID sp))
      \<and> \<not> snd (GetChannel (channelKeeper h) ctx port (ChannelID sp)) \<longrightarrow>
      IBCRawPacketHandler_DispatchMsg pkg h ctx contractAddr port msg =
        (([], [], Some (Wrap ErrInvalidChannel ''not found'')), ctx))
   \<and> (port \<noteq> [] \<and> ChannelID sp \<noteq> []
      \<and> snd (GetNextSequenceSend (channelKeeper h) ctx port (ChannelID sp))
      \<and> snd (GetChannel (channelKeeper h) ctx port (ChannelID sp))
      \<and> \<not> snd (GetCapability (capabilityKeeper h) ctx
                  (ChannelCapabilityPath pkg port (ChannelID sp))) \<longrightarrow>
      IBCRawPacketHandler_DispatchMsg pkg h ctx contractAddr port msg =
        (([], [], Some (Wrap ErrChannelCapabilityNotFound
           ''module does not own channel capability'')), ctx))
   \<and> (port \<noteq> [] \<and> ChannelID sp \<noteq> []
      \<and> snd (GetNextSequenceSend (channelKeeper h) ctx port (ChannelID sp))
      \<and> snd (GetChannel (channelKeeper h) ctx port (ChannelID sp))
      \<and> snd (GetCapability (capabilityKeeper h) ctx
                  (ChannelCapabilityPath pkg port (ChannelID sp))) \<longrightarrow>
      (\<exists>packet. IBCRawPacketHandler_DispatchMsg pkg h ctx contractAddr port msg =
        (([], [], fst (SendPacketK (channelKeeper h) ctx
             (fst (GetCapability (capabilityKeeper h) ctx
                  (ChannelCapabilityPath pkg port (ChannelID sp)))) packet)),
         snd (SendPacketK (channelKeeper h) ctx
             (fst (GetCapability (capabilityKeeper h) ctx
                  (ChannelCapabilityPath pkg port (ChannelID sp)))) packet))))"
  using assms
  by (auto simp add: IBCRawPacketHandler_DispatchMsg_def Let_def case_prod_beta)

theorem ibc_precondition_errors_witness:
  "IBCRawPacketHandler_DispatchMsg exPackage (exIBC True True True None) [] exContract
     [] (exSendPacketMsg ''channel-0'')
   = (([], [], Some (Wrap ErrUnsupportedForContract ''ibc not supported'')), [])
   \<and> IBCRawPacketHandler_DispatchMsg exPackage (exIBC True True True None) [] exContract
     ''wasm.C1'' (exSendPacketMsg [])
   = (([], [], Some (Wrap ErrEmpty ''ibc channel'')), [])
   \<and> IBCRawPacketHandler_DispatchMsg exPackage (exIBC False True True None) [] exContract
     ''wasm.C1'' (exSendPacketMsg ''channel-0'')
   = (([], [], Some (Wrap ErrSequenceSendNotFound
         ''source port: wasm.C1, source channel: channel-0'')), [])
   \<and> IBCRawPacketHandler_DispatchMsg exPackage (exIBC True False True None) [] exContract
     ''wasm.C1'' (exSendPacketMsg ''channel-0'')
   = (([], [], Some (Wrap ErrInvalidChannel ''not found'')), [])
   \<and> IBCRawPacketHandler_DispatchMsg exPackage (exIBC True True False None) [] exContract
     ''wasm.C1'' (exSendPacketMsg ''channel-0'')
   = (([], [], Some (Wrap ErrChannelCapabilityNotFound
         ''module does not own channel capability'')), [])
   \<and> snd (IBCRawPacketHandler_DispatchMsg exPackage (exIBC True True True None) [] exContract
     ''wasm.C1'' (exSendPacketMsg ''channel-0'')) \<noteq> []"
proof -
  have 1: "IBC (exSendPacketMsg c) = Some \<lparr>SendPacket = Some (exSendPacket c), CloseChannel = None\<rparr>" for c
    by (simp add: exSendPacketMsg_def)
  have 2: "SendPacket \<lparr>SendPacket = Some (exSendPacket c), CloseChannel = None\<rparr> = Some (exSendPacket c)" for c
    by simp
  show ?thesis
    using ibc_precondition_errors [OF 1 2, of "[]" exPackage "exIBC True True True None" "[]" exContract "''channel-0''"]
      ibc_precondition_errors [OF 1 2, of "''wasm.C1''" exPackage "exIBC True True True None" "[]" exContract "[]"]
      ibc_precondition_errors [OF 1 2, of "''wasm.C1''" exPackage "exIBC False True True None" "[]" exContract "''channel-0''"]
      ibc_precondition_errors [OF 1 2, of "''wasm.C1''" exPackage "exIBC True False True None" "[]" exContract "''channel-0''"]
      ibc_precondition_errors [OF 1 2, of "''wasm.C1''" exPackage "exIBC True True False None" "[]" exContract "''channel-0''"]
      ibc_precondition_errors [OF 1 2, of "''wasm.C1''" exPackage "exIBC True True True None" "[]" exContract "''channel-0''"]
    by (auto simp add: ex_defs)
qed

text \<open>
  C5. When all checks pass, the packet handed to \<open>SendPacket\<close> has the sequence the channel
  keeper returned, the contract's port and the message's channel as source, the counterparty
  of the fetched channel as destination, the data and the timeout timestamp of the message,
  and the converted block timeout of the message. The handler returns no events, no data and
  the error of \<open>SendPacket\<close> as it is (nil on success).
\<close>

theorem ibc_packet_fields:
  assumes "IBC msg = Some ibc" and "SendPacket ibc = Some sp"
    and "port \<noteq> []" and "ChannelID sp \<noteq> []"
    and "GetNextSequenceSend (channelKeeper h) ctx port (ChannelID sp) = (sequence, True)"
    and "GetChannel (channelKeeper h) ctx port (ChannelID sp) = (channelInfo, True)"
    and "GetCapability (capabilityKeeper h) ctx (ChannelCapabilityPath pkg port (ChannelID sp))
           = (channelCap, True)"
    and "packet = \<lparr>Sequence = sequence, SourcePort = port, SourceChannel = ChannelID sp,
           DestinationPort = PortId (Channel_Counterparty channelInfo),
           DestinationChannel = ChannelId (Channel_Counterparty channelInfo),
           Packet_Data = Data sp,
           TimeoutHeight = convertWasmIBCTimeoutHeightToCosmosHeight pkg (Block (Timeout sp)),
           TimeoutTimestamp = Timestamp (Timeout sp)\<rparr>"
  shows "IBCRawPacketHandler_DispatchMsg pkg h ctx contractAddr port msg =
           (([], [], fst (SendPacketK (channelKeeper h) ctx channelCap packet)),
            snd (SendPacketK (channelKeeper h) ctx channelCap packet))"
  using assms
  by (simp add: IBCRawPacketHandler_DispatchMsg_def NewPacket_def Let_def split: prod.splits)

theorem ibc_packet_fields_witness:
  "IBCRawPacketHandler_DispatchMsg exPackage (exIBC True True True None) [] exContract
     ''wasm.C1'' (exSendPacketMsg ''channel-0'')
   = (([], [], None),
      [Submitted (Some \<lparr>Index = 5\<rparr>)
         \<lparr>Sequence = 42, SourcePort = ''wasm.C1'', SourceChannel = ''channel-0'',
          DestinationPort = ''transfer'', DestinationChannel = ''channel-7'',
          Packet_Data = [1, 2],
          TimeoutHeight = \<lparr>RevisionNumber = 1, RevisionHeight = 1000\<rparr>,
          TimeoutTimestamp = 0\<rparr>])"
proof -
  let ?h = "exIBC True True True None"
  let ?sp = "exSendPacket ''channel-0''"
  have 1: "IBC (exSendPacketMsg ''channel-0'') = Some \<lparr>SendPacket = Some ?sp, CloseChannel = None\<rparr>"
    by (simp add: exSendPacketMsg_def)
  have 2: "SendPacket \<lparr>SendPacket = Some ?sp, CloseChannel = None\<rparr> = Some ?sp"
    by simp
  have 3: "''wasm.C1'' \<noteq> []" by simp
  have 4: "ChannelID ?sp \<noteq> []" by (simp add: exSendPacket_def)
  have 5: "GetNextSequenceSend (channelKeeper ?h) [] ''wasm.C1'' (ChannelID ?sp) = (42, True)"
    by (simp add: ex_defs)
  have 6: "GetChannel (channelKeeper ?h) [] ''wasm.C1'' (ChannelID ?sp) = (exChannel, True)"
    by (simp add: ex_defs)
  have 7: "GetCapability (capabilityKeeper ?h) []
             (ChannelCapabilityPath exPackage ''wasm.C1'' (ChannelID ?sp))
           = (Some \<lparr>Index = 5\<rparr>, True)"
    by (simp add: ex_defs)
  show ?thesis
    using ibc_packet_fields [OF 1 2 3 4 5 6 7 refl, of exContract]
    by (simp add: ex_defs)
qed

text \<open>
  C10. The cross-chain packet handler does not look at the address of the invoking contract:
  with the same context, IBC port and message, any two contract addresses give the same
  outcome (result and state).
\<close>

theorem ibc_dispatch_ignores_contract_address:
  "IBCRawPacketHandler_DispatchMsg pkg h ctx contractAddr1 contractIBCPortID msg
   = IBCRawPacketHandler_DispatchMsg pkg h ctx contractAddr2 contractIBCPortID msg"
  by (simp add: IBCRawPacketHandler_DispatchMsg_def)

theorem ibc_dispatch_ignores_contract_address_witness:
  "IBCRawPacketHandler_DispatchMsg exPackage (exIBC True True True None) [] exContract
     ''wasm.C1'' (exSendPacketMsg ''channel-0'')
   = IBCRawPacketHandler_DispatchMsg exPackage (exIBC True True True None) [] exStranger
     ''wasm.C1'' (exSendPacketMsg ''channel-0'')"
  using ibc_dispatch_ignores_contract_address
    [of exPackage "exIBC True True True None" "[]" exContract "''wasm.C1''"
        "exSendPacketMsg ''channel-0''" exStranger]
  by simp

subsection \<open>The burn handler\<close>

text \<open>
  C6. For a burn message whose amount converts, the handler first calls
  \<open>SendCoinsFromAccountToModule\<close> from the contract's account to the module account and then,
  in the state that call left, \<open>BurnCoins\<close> from the module account, both with the converted
  coins. An error of the transfer is returned wrapped with "transfer to module" and the burn
  is not called; an error of the burn is returned wrapped with "burn coins". When both
  succeed the handler returns no events, no data and no error.
\<close>

theorem burn_two_ledger_calls:
  assumes "Bank msg = Some bank" and "Burn bank = Some burn"
    and "convertWasmCoinsToSdkCoins pkg (Burn_Amount burn) = (coins, None)"
    and "SendCoinsFromAccountToModule burner ctx contractAddr (ModuleName pkg) coins
           = (transferErr, ctx1)"
    and "BurnCoins burner ctx1 (ModuleName pkg) coins = (burnErr, ctx2)"
  shows "NewBurnCoinMessageHandler pkg burner ctx contractAddr contractIBCPortID msg =
    (case transferErr of
       Some err \<Rightarrow> (([], [], Some (Wrap err ''transfer to module'')), ctx1)
     | None \<Rightarrow>
         (case burnErr of
            Some err \<Rightarrow> (([], [], Some (Wrap err ''burn coins'')), ctx2)
          | None \<Rightarrow> (([], [], None), logInfo pkg ctx2 ''Burned'' ''amount'' coins)))"
  using assms
  by (simp add: NewBurnCoinMessageHandler_def split: option.splits)

theorem burn_two_ledger_calls_witness:
  "NewBurnCoinMessageHandler exPackage (exBurner None None) [] exContract ''wasm.C1'' exBurnMsg
     = (([], [], None),
        [Transferred exContract ''wasm'' [(''uatom'', 100)], Burned ''wasm'' [(''uatom'', 100)]])
   \<and> NewBurnCoinMessageHandler exPackage (exBurner (Some (ErrOther ''insufficient funds'')) None)
       [] exContract ''wasm.C1'' exBurnMsg
     = (([], [], Some (Wrap (ErrOther ''insufficient funds'') ''transfer to module'')),
        [Transferred exContract ''wasm'' [(''uatom'', 100)]])
   \<and> NewBurnCoinMessageHandler exPackage (exBurner None (Some (ErrOther ''no permission'')))
       [] exContract ''wasm.C1'' exBurnMsg
     = (([], [], Some (Wrap (ErrOther ''no permission'') ''burn coins'')),
        [Transferred exContract ''wasm'' [(''uatom'', 100)], Burned ''wasm'' [(''uatom'', 100)]])"
proof -
  let ?burn = "\<lparr>Burn_Amount = [\<lparr>Denom = ''uatom'', Amount = ''100''\<rparr>]\<rparr>"
  let ?coins = "[(''uatom'', 100::int)]"
  have 1: "Bank exBurnMsg = Some \<lparr>Send = None, Burn = Some ?burn\<rparr>"
    by (simp add: exBurnMsg_def)
  have 2: "Burn \<lparr>Send = None, Burn = Some ?burn\<rparr> = Some ?burn"
    by simp
  have 3: "convertWasmCoinsToSdkCoins exPackage (Burn_Amount ?burn) = (?coins, None)"
    by (simp add: exPackage_def)
  have 4: "SendCoinsFromAccountToModule (exBurner t b) [] exContract (ModuleName exPackage) ?coins
             = (t, [Transferred exContract ''wasm'' ?coins])" for t b
    by (simp add: exBurner_def exPackage_def)
  have 5: "BurnCoins (exBurner t b) [Transferred exContract ''wasm'' ?coins] (ModuleName exPackage) ?coins
             = (b, [Transferred exContract ''wasm'' ?coins, Burned ''wasm'' ?coins])" for t b
    by (simp add: exBurner_def exPackage_def)
  show ?thesis
    using burn_two_ledger_calls [OF 1 2 3 4 5, of None None "''wasm.C1''"]
      burn_two_ledger_calls [OF 1 2 3 4 5, of "Some (ErrOther ''insufficient funds'')" None "''wasm.C1''"]
      burn_two_ledger_calls [OF 1 2 3 4 5, of None "Some (ErrOther ''no permission'')" "''wasm.C1''"]
    by (simp add: exPackage_def)
qed

subsection \<open>The chain of handlers\<close>

lemma nilPosition_None: "nilPosition i hs = None \<longleftrightarrow> NilInterface \<notin> set hs"
  by (induction i hs rule: nilPosition.induct) auto

lemma nilPosition_Some:
  "nilPosition i hs = Some k \<Longrightarrow>
     i \<le> k \<and> k - i < length hs \<and> hs ! (k - i) = NilInterface
     \<and> (\<forall>j < k - i. hs ! j \<noteq> NilInterface)"
proof (induction hs arbitrary: i)
  case Nil
  then show ?case by simp
next
  case (Cons h hs)
  show ?case
  proof (cases "h = NilInterface")
    case True
    then show ?thesis using Cons.prems by simp
  next
    case False
    then have "nilPosition (Suc i) hs = Some k"
      using Cons.prems by (cases h) auto
    then have ih: "Suc i \<le> k \<and> k - Suc i < length hs \<and> hs ! (k - Suc i) = NilInterface
        \<and> (\<forall>j < k - Suc i. hs ! j \<noteq> NilInterface)"
      using Cons.IH by blast
    then have k: "k - i = Suc (k - Suc i)" by arith
    show ?thesis
    proof (intro conjI allI impI)
      show "i \<le> k" using ih by arith
      show "k - i < length (h # hs)" using ih k by simp
      show "(h # hs) ! (k - i) = NilInterface" using ih k by simp
      fix j assume "j < k - i"
      then show "(h # hs) ! j \<noteq> NilInterface" using ih k False by (cases j) auto
    qed
  qed
qed

text \<open>
  What the test of the constructor does establish: it panics when a handler is the nil
  interface value, whatever its position, naming the first such position, and calls no
  handler; with no such handler it returns the chain of the handlers in the order given.
\<close>

lemma constructor_rejects_nil_interface:
  "(NilInterface \<in> set (first # others) \<longrightarrow>
      (\<exists>i < length (first # others).
         NewMessageHandlerChain first others = Inl (NilHandlerAt i)
         \<and> (first # others) ! i = NilInterface
         \<and> (\<forall>j < i. (first # others) ! j \<noteq> NilInterface)))
   \<and> (NilInterface \<notin> set (first # others) \<longrightarrow>
      NewMessageHandlerChain first others = Inr \<lparr>handlers = first # others\<rparr>)"
proof (intro conjI impI)
  assume "NilInterface \<in> set (first # others)"
  then obtain k where k: "nilPosition 0 (first # others) = Some k"
    using nilPosition_None [of 0 "first # others"] by (cases "nilPosition 0 (first # others)") auto
  from nilPosition_Some [OF k]
  have "k < length (first # others) \<and> (first # others) ! k = NilInterface
      \<and> (\<forall>j < k. (first # others) ! j \<noteq> NilInterface)"
    by simp
  moreover have "NewMessageHandlerChain first others = Inl (NilHandlerAt k)"
    using k by (simp add: NewMessageHandlerChain_def)
  ultimately show "\<exists>i < length (first # others).
         NewMessageHandlerChain first others = Inl (NilHandlerAt i)
         \<and> (first # others) ! i = NilInterface
         \<and> (\<forall>j < i. (first # others) ! j \<noteq> NilInterface)"
    by blast
next
  assume "NilInterface \<notin> set (first # others)"
  then have "nilPosition 0 (first # others) = None"
    using nilPosition_None [of 0 "first # others"] by simp
  then show "NewMessageHandlerChain first others = Inr \<lparr>handlers = first # others\<rparr>"
    by (simp add: NewMessageHandlerChain_def)
qed


text \<open>
  Dispatching on a chain of callable handlers does not panic, and the default chain is such a
  chain.
\<close>

lemma chainLoop_no_panic:
  "\<exists>r. chainLoop (map Callable hs) ctx contractAddr contractIBCPortID msg = Inr r"
proof (induction hs arbitrary: ctx)
  case Nil
  then show ?case by simp
next
  case (Cons h hs)
  then show ?case
    by (auto split: prod.splits option.splits)
qed

lemma NewDefaultMessageHandler_handlers:
  "NewDefaultMessageHandler pkg r mr chk cak bk enc =
     Inr \<lparr>handlers = map Callable
       [SDKMessageHandler_DispatchMsg (NewSDKMessageHandler r mr enc),
        IBCRawPacketHandler_DispatchMsg pkg (NewIBCRawPacketHandler chk cak),
        NewBurnCoinMessageHandler pkg bk]\<rparr>"
  by (simp add: NewDefaultMessageHandler_def NewMessageHandlerChain_def)

lemma chainLoop_fallsThrough:
  "fallsThrough pre ctx contractAddr contractIBCPortID msg = Some ctx1 \<Longrightarrow>
   chainLoop (map Callable pre @ rest) ctx contractAddr contractIBCPortID msg
   = chainLoop rest ctx1 contractAddr contractIBCPortID msg"
proof (induction pre arbitrary: ctx)
  case Nil
  then show ?case by simp
next
  case (Cons h pre)
  then show ?case
    by (auto split: prod.splits option.splits if_splits)
qed

text \<open>
  C2. The chain calls its handlers in list order, each in the state the one before left.
  When the handlers before \<open>h\<close> all report \<open>ErrUnknownMsg\<close> and the result \<open>r\<close> of \<open>h\<close>
  has no error, or an error that is not \<open>ErrUnknownMsg\<close>, the chain returns \<open>r\<close> as it is
  (events, data and error) with the state \<open>h\<close> left. The handlers after \<open>h\<close> are not
  called: the outcome is the same for every \<open>post\<close>, nil handlers included. Nothing of
  what the earlier handlers returned is in the result.
\<close>

theorem chain_returns_first_accepting:
  assumes "fallsThrough pre ctx contractAddr contractIBCPortID msg = Some ctx1"
    and "h ctx1 contractAddr contractIBCPortID msg = (r, ctx2)"
    and "accepts r"
  shows "MessageHandlerChain_DispatchMsg \<lparr>handlers = map Callable pre @ Callable h # post\<rparr>
           ctx contractAddr contractIBCPortID msg = Inr (r, ctx2)"
proof -
  obtain events data err where r: "r = (events, data, err)"
    by (cases r) auto
  have "chainLoop (Callable h # post) ctx1 contractAddr contractIBCPortID msg = Inr (r, ctx2)"
    using assms(2,3) r by (cases err) auto
  then show ?thesis
    using chainLoop_fallsThrough [OF assms(1)]
    by (simp add: MessageHandlerChain_DispatchMsg_def)
qed

theorem chain_returns_first_accepting_witness:
  "MessageHandlerChain_DispatchMsg
     \<lparr>handlers = [Callable (SDKMessageHandler_DispatchMsg (exSDK True [])),
                  Callable (IBCRawPacketHandler_DispatchMsg exPackage (exIBC True True True None)),
                  Callable (NewBurnCoinMessageHandler exPackage (exBurner None None)),
                  NilInterface, NilInside]\<rparr>
     [] exContract ''wasm.C1'' exBurnMsg
   = Inr (([], [], None),
          [Transferred exContract ''wasm'' [(''uatom'', 100)], Burned ''wasm'' [(''uatom'', 100)]])
   \<and> MessageHandlerChain_DispatchMsg
     \<lparr>handlers = [Callable (SDKMessageHandler_DispatchMsg (exSDK True [])),
                  Callable (IBCRawPacketHandler_DispatchMsg exPackage (exIBC True True True None)),
                  Callable (NewBurnCoinMessageHandler exPackage (exBurner None None))]\<rparr>
     [] exContract [] (exSendPacketMsg ''channel-0'')
   = Inr (([], [], Some (Wrap ErrUnsupportedForContract ''ibc not supported'')), [])"
proof -
  let ?sdk = "SDKMessageHandler_DispatchMsg (exSDK True [])"
  let ?ibc = "IBCRawPacketHandler_DispatchMsg exPackage (exIBC True True True None)"
  let ?burn = "NewBurnCoinMessageHandler exPackage (exBurner None None)"
  have 1: "fallsThrough [?sdk, ?ibc] [] exContract ''wasm.C1'' exBurnMsg = Some []"
    by (simp add: SDKMessageHandler_DispatchMsg_def IBCRawPacketHandler_DispatchMsg_def
        sdk_defs exBurnMsg_def)
  have 2: "?burn [] exContract ''wasm.C1'' exBurnMsg
      = (([], [], None),
         [Transferred exContract ''wasm'' [(''uatom'', 100)], Burned ''wasm'' [(''uatom'', 100)]])"
    by (simp add: NewBurnCoinMessageHandler_def exBurnMsg_def exBurner_def exPackage_def)
  have 3: "accepts ([], [], None)"
    by simp
  have 4: "fallsThrough [?sdk] [] exContract [] (exSendPacketMsg ''channel-0'') = Some []"
    by (simp add: SDKMessageHandler_DispatchMsg_def sdk_defs exSendPacketMsg_def)
  have 5: "?ibc [] exContract [] (exSendPacketMsg ''channel-0'')
      = (([], [], Some (Wrap ErrUnsupportedForContract ''ibc not supported'')), [])"
    by (simp add: IBCRawPacketHandler_DispatchMsg_def exSendPacketMsg_def)
  have 6: "accepts ([], [], Some (Wrap ErrUnsupportedForContract ''ibc not supported''))"
    by simp
  show ?thesis
    using chain_returns_first_accepting [where h = "?burn" and post = "[NilInterface, NilInside]", OF 1 2 3]
      chain_returns_first_accepting [where h = "?ibc" and post = "[Callable ?burn]", OF 4 5 6]
    by simp
qed

text \<open>
  C3, as amended. When every handler reports \<open>ErrUnknownMsg\<close>, the chain returns no events,
  no data and the error \<open>ErrUnknownMsg\<close> wrapped with "no handler found". That error is
  another value than the bare \<open>ErrUnknownMsg\<close>, yet it still is an unknown-message error
  for \<open>errors.Is\<close>, which is what the caller of the chain sees.
\<close>

theorem chain_no_handler_found:
  assumes "fallsThrough hs ctx contractAddr contractIBCPortID msg = Some ctx1"
  shows "MessageHandlerChain_DispatchMsg \<lparr>handlers = map Callable hs\<rparr>
           ctx contractAddr contractIBCPortID msg
         = Inr (([], [], Some (Wrap ErrUnknownMsg ''no handler found'')), ctx1)
       \<and> Wrap ErrUnknownMsg ''no handler found'' \<noteq> ErrUnknownMsg
       \<and> errors_Is (Wrap ErrUnknownMsg ''no handler found'') ErrUnknownMsg"
  using chainLoop_fallsThrough [OF assms, of "[]"]
  by (simp add: MessageHandlerChain_DispatchMsg_def)

theorem chain_no_handler_found_witness:
  "MessageHandlerChain_DispatchMsg
     \<lparr>handlers = [Callable (SDKMessageHandler_DispatchMsg (exSDK True [])),
                  Callable (IBCRawPacketHandler_DispatchMsg exPackage (exIBC True True True None)),
                  Callable (NewBurnCoinMessageHandler exPackage (exBurner None None))]\<rparr>
     [] exContract ''wasm.C1'' exCustomMsg
   = Inr (([], [], Some (Wrap ErrUnknownMsg ''no handler found'')), [])"
proof -
  have 1: "fallsThrough
     [SDKMessageHandler_DispatchMsg (exSDK True []),
      IBCRawPacketHandler_DispatchMsg exPackage (exIBC True True True None),
      NewBurnCoinMessageHandler exPackage (exBurner None None)]
     [] exContract ''wasm.C1'' exCustomMsg = Some []"
    by (simp add: SDKMessageHandler_DispatchMsg_def IBCRawPacketHandler_DispatchMsg_def
        NewBurnCoinMessageHandler_def sdk_defs exCustomMsg_def)
  show ?thesis
    using chain_no_handler_found [OF 1]
    by simp
qed

text \<open>
  C3 as stated fails: with two handlers that both report \<open>ErrUnknownMsg\<close> for a bank send,
  the error the chain returns is of the unknown-message kind.
\<close>

theorem chain_surfaces_unknown_msg_counterexample:
  "MessageHandlerChain_DispatchMsg
     \<lparr>handlers = [Callable (IBCRawPacketHandler_DispatchMsg exPackage (exIBC True True True None)),
                  Callable (NewBurnCoinMessageHandler exPackage (exBurner None None))]\<rparr>
     [] exContract ''wasm.C1'' exSendMsg
   = Inr (([], [], Some (Wrap ErrUnknownMsg ''no handler found'')), [])
   \<and> errors_Is (Wrap ErrUnknownMsg ''no handler found'') ErrUnknownMsg"
  by (simp add: MessageHandlerChain_DispatchMsg_def IBCRawPacketHandler_DispatchMsg_def
      NewBurnCoinMessageHandler_def exSendMsg_def)

text \<open>
  Every list of handlers is in one of the two cases above: either all of them report
  \<open>ErrUnknownMsg\<close>, or a first one does not.
\<close>

lemma chain_cases:
  "(\<exists>ctx1. fallsThrough hs ctx contractAddr contractIBCPortID msg = Some ctx1)
   \<or> (\<exists>pre h post ctx1. hs = pre @ h # post
        \<and> fallsThrough pre ctx contractAddr contractIBCPortID msg = Some ctx1
        \<and> accepts (fst (h ctx1 contractAddr contractIBCPortID msg)))"
proof (induction hs arbitrary: ctx)
  case Nil
  then show ?case by simp
next
  case (Cons h hs)
  obtain events data err ctx' where h: "h ctx contractAddr contractIBCPortID msg = ((events, data, err), ctx')"
    by (metis prod.exhaust)
  show ?case
  proof (cases "accepts (events, data, err)")
    case True
    then have "h # hs = [] @ h # hs \<and> fallsThrough [] ctx contractAddr contractIBCPortID msg = Some ctx
        \<and> accepts (fst (h ctx contractAddr contractIBCPortID msg))"
      using h by simp
    then show ?thesis by blast
  next
    case False
    then obtain e where e: "err = Some e" "errors_Is e ErrUnknownMsg"
      by (cases err) auto
    then have step: "fallsThrough (h # pre) ctx contractAddr contractIBCPortID msg
        = fallsThrough pre ctx' contractAddr contractIBCPortID msg" for pre
      using h by simp
    from Cons.IH [of ctx'] show ?thesis
    proof
      assume "\<exists>ctx1. fallsThrough hs ctx' contractAddr contractIBCPortID msg = Some ctx1"
      then show ?thesis using step by simp
    next
      assume "\<exists>pre h' post ctx1. hs = pre @ h' # post
        \<and> fallsThrough pre ctx' contractAddr contractIBCPortID msg = Some ctx1
        \<and> accepts (fst (h' ctx1 contractAddr contractIBCPortID msg))"
      then obtain pre h' post ctx1 where "hs = pre @ h' # post"
        "fallsThrough pre ctx' contractAddr contractIBCPortID msg = Some ctx1"
        "accepts (fst (h' ctx1 contractAddr contractIBCPortID msg))"
        by blast
      then have "h # hs = (h # pre) @ h' # post
        \<and> fallsThrough (h # pre) ctx contractAddr contractIBCPortID msg = Some ctx1
        \<and> accepts (fst (h' ctx1 contractAddr contractIBCPortID msg))"
        using step by simp
      then show ?thesis by blast
    qed
  qed
qed

subsection \<open>The standard handler\<close>

lemma Equals_iff: "Equals aa aa2 \<longleftrightarrow> aa = aa2"
  by (simp add: Equals_def)

lemma signerRejected_iff:
  "signerRejected signers contractAddr \<longleftrightarrow> (\<exists>acct \<in> set signers. acct \<noteq> contractAddr)"
  by (induction signers) (auto simp add: Equals_iff)

lemma dispatchLoop_append:
  "dispatchLoop h contractAddr (pre @ rest) events data ctx =
    (case handledInOrder h contractAddr pre ctx of
      (Inl err, ctx') \<Rightarrow> (([], [], Some err), ctx')
    | (Inr rs, ctx') \<Rightarrow>
        dispatchLoop h contractAddr rest
          (events @ concat (map Result_Events rs)) (data @ map Result_Data rs) ctx')"
proof (induction pre arbitrary: events data ctx)
  case Nil
  then show ?case by simp
next
  case (Cons op pre)
  show ?case
  proof (cases "handleSdkMessage h ctx contractAddr op")
    case (Pair res ctx')
    show ?thesis
    proof (cases res)
      case (Inl err)
      then show ?thesis using Pair by simp
    next
      case (Inr r)
      then show ?thesis
        using Pair Cons.IH [of "events @ Result_Events r" "data @ [Result_Data r]" ctx']
        by (simp split: prod.splits sum.splits)
    qed
  qed
qed

lemma handledInOrder_length:
  "handledInOrder h contractAddr ops ctx = (Inr rs, ctx') \<Longrightarrow> length rs = length ops"
  by (induction ops arbitrary: ctx rs) (auto split: prod.splits sum.splits)

text \<open>
  An operation is handled only if it passes its validation and declares no signer other than
  the contract; \<open>DispatchMsg\<close> stops at the first operation whose handling fails.
\<close>

lemma handleSdkMessage_Inr_checked:
  assumes "handleSdkMessage h ctx contractAddr op = (Inr res, ctx')"
  shows "ValidateBasic op = None \<and> set (GetSigners op) \<subseteq> {contractAddr}"
proof -
  have v: "ValidateBasic op = None"
    using assms by (cases "ValidateBasic op") (auto simp add: handleSdkMessage_def)
  have "\<not> signerRejected (GetSigners op) contractAddr"
    using assms v by (auto simp add: handleSdkMessage_def split: if_splits)
  then show ?thesis
    using v signerRejected_iff by blast
qed

lemma handledInOrder_Inr_checked:
  "handledInOrder h contractAddr ops ctx = (Inr rs, ctx') \<Longrightarrow>
   \<forall>op \<in> set ops. ValidateBasic op = None \<and> set (GetSigners op) \<subseteq> {contractAddr}"
proof (induction ops arbitrary: ctx rs)
  case Nil
  then show ?case by simp
next
  case (Cons op ops)
  then obtain res ctx1 where 1: "handleSdkMessage h ctx contractAddr op = (Inr res, ctx1)"
    by (auto split: prod.splits sum.splits)
  then obtain rs' where "handledInOrder h contractAddr ops ctx1 = (Inr rs', ctx')"
    using Cons.prems by (auto split: prod.splits sum.splits)
  then have "\<forall>op \<in> set ops. ValidateBasic op = None \<and> set (GetSigners op) \<subseteq> {contractAddr}"
    using Cons.IH by blast
  then show ?case
    using handleSdkMessage_Inr_checked [OF 1] by simp
qed

lemma dispatch_fails_at:
  assumes "encoders h ctx contractAddr contractIBCPortID msg = (pre @ op # post, None)"
    and "handledInOrder h contractAddr pre ctx = (Inr rs, ctx')"
    and "handleSdkMessage h ctx' contractAddr op = (Inl err, ctx'')"
  shows "SDKMessageHandler_DispatchMsg h ctx contractAddr contractIBCPortID msg
        = (([], [], Some err), ctx'')"
  using assms by (simp add: SDKMessageHandler_DispatchMsg_def dispatchLoop_append)

text \<open>
  C1, as amended. A host operation that declares a signer other than the contract is always
  refused, whatever the routers hold and with the state untouched: with its own validation
  error when it has one, with \<open>ErrUnauthorized\<close> otherwise. \<open>DispatchMsg\<close> returns that error,
  with no events and no data, when the operations encoded before it were handled. A valid
  operation whose signers are all the contract, be they several or none, passes the check
  and goes on to the routers.
\<close>

theorem foreign_signer_unauthorized:
  "(acct \<in> set (GetSigners op) \<and> acct \<noteq> contractAddr \<longrightarrow>
      handleSdkMessage h ctx contractAddr op
        = (Inl (case ValidateBasic op of
                  Some err \<Rightarrow> err
                | None \<Rightarrow> Wrap ErrUnauthorized ''contract doesn't have permission''), ctx)
      \<and> (encoders h ctx0 contractAddr contractIBCPortID msg = (pre @ op # post, None)
         \<and> handledInOrder h contractAddr pre ctx0 = (Inr rs, ctx) \<longrightarrow>
         SDKMessageHandler_DispatchMsg h ctx0 contractAddr contractIBCPortID msg
           = (([], [], Some (case ValidateBasic op of
                  Some err \<Rightarrow> err
                | None \<Rightarrow> Wrap ErrUnauthorized ''contract doesn't have permission'')), ctx)))
   \<and> (ValidateBasic op = None \<and> set (GetSigners op) \<subseteq> {contractAddr}
      \<and> msgRouter h = Some mr \<and> mr op = Some handler \<longrightarrow>
      handleSdkMessage h ctx contractAddr op = handler ctx op)"
proof (intro conjI impI)
  assume a: "acct \<in> set (GetSigners op) \<and> acct \<noteq> contractAddr"
  then have "signerRejected (GetSigners op) contractAddr"
    using signerRejected_iff by blast
  then show un: "handleSdkMessage h ctx contractAddr op
        = (Inl (case ValidateBasic op of
                  Some err \<Rightarrow> err
                | None \<Rightarrow> Wrap ErrUnauthorized ''contract doesn't have permission''), ctx)"
    by (simp add: handleSdkMessage_def split: option.splits)
  assume "encoders h ctx0 contractAddr contractIBCPortID msg = (pre @ op # post, None)
         \<and> handledInOrder h contractAddr pre ctx0 = (Inr rs, ctx)"
  then show "SDKMessageHandler_DispatchMsg h ctx0 contractAddr contractIBCPortID msg
           = (([], [], Some (case ValidateBasic op of
                  Some err \<Rightarrow> err
                | None \<Rightarrow> Wrap ErrUnauthorized ''contract doesn't have permission'')), ctx)"
    using un by (simp add: SDKMessageHandler_DispatchMsg_def dispatchLoop_append)
next
  assume b: "ValidateBasic op = None \<and> set (GetSigners op) \<subseteq> {contractAddr}
      \<and> msgRouter h = Some mr \<and> mr op = Some handler"
  then have "\<not> signerRejected (GetSigners op) contractAddr"
    using signerRejected_iff by blast
  then show "handleSdkMessage h ctx contractAddr op = handler ctx op"
    using b by (simp add: handleSdkMessage_def)
qed

theorem foreign_signer_unauthorized_witness:
  "handleSdkMessage (exSDK True []) [] exContract (exOp ''/new'' [exContract, exStranger] None)
     = (Inl (Wrap ErrUnauthorized ''contract doesn't have permission''), [])
   \<and> SDKMessageHandler_DispatchMsg
       (exSDK True [exOp ''/new'' [exContract] None, exOp ''/new'' [exContract, exStranger] None])
       [] exContract ''wasm.C1'' exSendMsg
     = (([], [], Some (Wrap ErrUnauthorized ''contract doesn't have permission'')),
        [Executed ''service:/new''])
   \<and> handleSdkMessage (exSDK True []) [] exContract (exOp ''/new'' [exContract, exContract] None)
     = (Inr (exResult ''/new''), [Executed ''service:/new''])"
proof -
  let ?ok = "exOp ''/new'' [exContract] None"
  let ?bad = "exOp ''/new'' [exContract, exStranger] None"
  let ?twice = "exOp ''/new'' [exContract, exContract] None"
  let ?h = "exSDK True [?ok, ?bad]"
  have s: "exStranger \<in> set (GetSigners ?bad) \<and> exStranger \<noteq> exContract"
    by (simp add: exOp_def exStranger_def exContract_def)
  have e: "encoders ?h [] exContract ''wasm.C1'' exSendMsg = ([?ok] @ ?bad # [], None)"
    by (simp add: exSDK_def NewSDKMessageHandler_def exEncode_def exSendMsg_def)
  have p: "handledInOrder ?h exContract [?ok] []
      = (Inr [exResult ''/new''], [Executed ''service:/new''])"
    by (simp add: handleSdkMessage_def Equals_def sdk_defs)
  have t: "ValidateBasic ?twice = None \<and> set (GetSigners ?twice) \<subseteq> {exContract}
      \<and> msgRouter (exSDK True []) = Some (\<lambda>msg. if TypeURL msg = ''/new'' then Some (exExecute ''service:'') else None)
      \<and> (\<lambda>msg. if TypeURL msg = ''/new'' then Some (exExecute ''service:'') else None) ?twice
          = Some (exExecute ''service:'')"
    by (simp add: exSDK_def NewSDKMessageHandler_def exOp_def)
  show ?thesis
    using foreign_signer_unauthorized [THEN conjunct1, rule_format, OF s, THEN conjunct1,
        of "exSDK True []" "[]"]
      foreign_signer_unauthorized [THEN conjunct1, rule_format, OF s, THEN conjunct2,
        rule_format, OF conjI [OF e p]]
      foreign_signer_unauthorized [THEN conjunct2, rule_format, OF t, of "[]"]
    by (simp add: exExecute_def exOp_def)
qed

text \<open>
  C1 as stated fails. An operation that declares no signer has a signer set other than the
  contract alone, and it is executed. An operation signed by a stranger that fails its own
  validation is refused with the validation error, which is not \<open>ErrUnauthorized\<close>.
\<close>

theorem no_signer_accepted_counterexample:
  "set (GetSigners (exOp ''/new'' [] None)) \<noteq> {exContract}
   \<and> SDKMessageHandler_DispatchMsg (exSDK True [exOp ''/new'' [] None])
       [] exContract ''wasm.C1'' exSendMsg
     = (([(''/new'', [])], [[4]], None), [Executed ''service:/new''])
   \<and> set (GetSigners ((exOp ''/new'' [exStranger] None)
             \<lparr>ValidateBasic := Some (ErrOther ''invalid amount'')\<rparr>)) \<noteq> {exContract}
   \<and> SDKMessageHandler_DispatchMsg
       (exSDK True [(exOp ''/new'' [exStranger] None)
             \<lparr>ValidateBasic := Some (ErrOther ''invalid amount'')\<rparr>])
       [] exContract ''wasm.C1'' exSendMsg
     = (([], [], Some (ErrOther ''invalid amount'')), [])
   \<and> \<not> errors_Is (ErrOther ''invalid amount'') ErrUnauthorized"
  by (simp add: SDKMessageHandler_DispatchMsg_def handleSdkMessage_def sdk_defs exSendMsg_def
      exStranger_def exContract_def)

text \<open>
  C7, as amended. For a host operation that passes validation and the signer check: when
  \<open>msgRouter\<close> is nil the call fails with \<open>ErrPanic\<close> and no router is consulted. Otherwise the
  service router is asked first and, when it has a handler for the operation, the outcome is
  that handler's. Only when it has none is the legacy route of the operation looked up in the
  legacy router, whose handler then gives the outcome; an unknown route fails with
  \<open>ErrUnknownRequest\<close> naming the route, and an operation without a legacy route fails with
  \<open>ErrUnknownRequest\<close> naming the operation.
\<close>

theorem routing_modern_then_legacy:
  assumes "ValidateBasic op = None"
    and "set (GetSigners op) \<subseteq> {contractAddr}"
  shows
  "(msgRouter h = None \<longrightarrow>
      handleSdkMessage h ctx contractAddr op
        = (Inl (Wrap ErrPanic ''>>> msgRouter is nil!!!''), ctx))
   \<and> (\<forall>mr. msgRouter h = Some mr \<longrightarrow>
        (\<forall>handler. mr op = Some handler \<longrightarrow>
           handleSdkMessage h ctx contractAddr op = handler ctx op)
      \<and> (mr op = None \<longrightarrow>
           (\<forall>route. LegacyRoute op = Some route \<longrightarrow>
              (\<forall>handler. router h ctx route = Some handler \<longrightarrow>
                 handleSdkMessage h ctx contractAddr op = handler ctx op)
            \<and> (router h ctx route = None \<longrightarrow>
                 handleSdkMessage h ctx contractAddr op
                   = (Inl (Wrap ErrUnknownRequest
                        (''unrecognized message route: '' @ route @ ''; message'')), ctx)))
         \<and> (LegacyRoute op = None \<longrightarrow>
              handleSdkMessage h ctx contractAddr op
                = (Inl (Wrap ErrUnknownRequest (''can't route message '' @ Rendering op)), ctx))))"
proof -
  have "\<not> signerRejected (GetSigners op) contractAddr"
    using assms(2) signerRejected_iff by blast
  then show ?thesis
    using assms(1) by (simp add: handleSdkMessage_def)
qed

theorem routing_modern_then_legacy_witness:
  "handleSdkMessage (exSDK False []) [] exContract (exOp ''/new'' [exContract] (Some ''old''))
     = (Inl (Wrap ErrPanic ''>>> msgRouter is nil!!!''), [])
   \<and> handleSdkMessage (exSDK True []) [] exContract (exOp ''/new'' [exContract] (Some ''old''))
     = (Inr (exResult ''/new''), [Executed ''service:/new''])
   \<and> handleSdkMessage (exSDK True []) [] exContract (exOp ''/other'' [exContract] (Some ''old''))
     = (Inr (exResult ''/other''), [Executed ''legacy:/other''])
   \<and> handleSdkMessage (exSDK True []) [] exContract (exOp ''/other'' [exContract] (Some ''gone''))
     = (Inl (Wrap ErrUnknownRequest ''unrecognized message route: gone; message''), [])
   \<and> handleSdkMessage (exSDK True []) [] exContract (exOp ''/other'' [exContract] None)
     = (Inl (Wrap ErrUnknownRequest ''can't route message /other''), [])"
proof -
  have v: "ValidateBasic (exOp url signers route) = None" for url signers route
    by (simp add: exOp_def)
  have s: "set (GetSigners (exOp url [exContract] route)) \<subseteq> {exContract}" for url route
    by (simp add: exOp_def)
  show ?thesis
    using routing_modern_then_legacy [OF v s, of "exSDK False []" "[]" "''/new''" "Some ''old''"]
      routing_modern_then_legacy [OF v s, of "exSDK True []" "[]" "''/new''" "Some ''old''"]
      routing_modern_then_legacy [OF v s, of "exSDK True []" "[]" "''/other''" "Some ''old''"]
      routing_modern_then_legacy [OF v s, of "exSDK True []" "[]" "''/other''" "Some ''gone''"]
      routing_modern_then_legacy [OF v s, of "exSDK True []" "[]" "''/other''" None]
    by (simp add: sdk_defs)
qed

text \<open>
  C7 as stated fails: with a nil \<open>msgRouter\<close> and a legacy route that the legacy router does
  not know, no router recognises the operation, and the error is \<open>ErrPanic\<close>, not
  \<open>ErrUnknownRequest\<close>.
\<close>

theorem nil_msgRouter_counterexample:
  "handleSdkMessage (exSDK False []) [] exContract (exOp ''/other'' [exContract] (Some ''gone''))
     = (Inl (Wrap ErrPanic ''>>> msgRouter is nil!!!''), [])
   \<and> \<not> errors_Is (Wrap ErrPanic ''>>> msgRouter is nil!!!'') ErrUnknownRequest"
  by (simp add: handleSdkMessage_def Equals_def sdk_defs)

text \<open>
  C8. When the encoder fails, \<open>DispatchMsg\<close> returns its error as it is (\<open>ErrUnknownMsg\<close>
  included), with no events and no data, and the state untouched. When the operations
  \<open>pre\<close> encoded before \<open>op\<close> were handled, a failure of \<open>op\<close> ends the call with that error,
  no events and no data, so that nothing of the earlier results is reported:
  \<^item> validation: a failing \<open>ValidateBasic\<close> gives its error;
  \<^item> authorization: a signer other than the contract gives \<open>ErrUnauthorized\<close>;
  \<^item> routing: a nil \<open>msgRouter\<close> gives \<open>ErrPanic\<close>, an unknown legacy route and an operation
    without a legacy route give \<open>ErrUnknownRequest\<close>, and an error of the handler that the
    service router or the legacy router found is returned as it is;
  \<^item> in general, whatever error \<open>handleSdkMessage\<close> returns for \<open>op\<close>.

  When all operations are handled, which requires each of them to be valid and signed by
  nobody but the contract, there is one result for each, and the events of the results are
  appended, and their data collected, in the order of the encoder.
\<close>

theorem sdk_dispatch_all_or_nothing:
  "(encoders h ctx contractAddr contractIBCPortID msg = (ops, Some err) \<longrightarrow>
      SDKMessageHandler_DispatchMsg h ctx contractAddr contractIBCPortID msg
        = (([], [], Some err), ctx))
   \<and> (encoders h ctx contractAddr contractIBCPortID msg = (pre @ op # post, None)
      \<and> handledInOrder h contractAddr pre ctx = (Inr rs, ctx') \<longrightarrow>
        (ValidateBasic op = Some err \<longrightarrow>
           SDKMessageHandler_DispatchMsg h ctx contractAddr contractIBCPortID msg
             = (([], [], Some err), ctx'))
      \<and> (ValidateBasic op = None \<and> acct \<in> set (GetSigners op) \<and> acct \<noteq> contractAddr \<longrightarrow>
           SDKMessageHandler_DispatchMsg h ctx contractAddr contractIBCPortID msg
             = (([], [], Some (Wrap ErrUnauthorized ''contract doesn't have permission'')), ctx'))
      \<and> (ValidateBasic op = None \<and> set (GetSigners op) \<subseteq> {contractAddr} \<longrightarrow>
           (msgRouter h = None \<longrightarrow>
              SDKMessageHandler_DispatchMsg h ctx contractAddr contractIBCPortID msg
                = (([], [], Some (Wrap ErrPanic ''>>> msgRouter is nil!!!'')), ctx'))
         \<and> (\<forall>mr. msgRouter h = Some mr \<longrightarrow>
              (\<forall>handler. mr op = Some handler \<and> handler ctx' op = (Inl err, ctx'') \<longrightarrow>
                 SDKMessageHandler_DispatchMsg h ctx contractAddr contractIBCPortID msg
                   = (([], [], Some err), ctx''))
            \<and> (mr op = None \<longrightarrow>
                 (\<forall>route. LegacyRoute op = Some route \<longrightarrow>
                    (\<forall>handler. router h ctx' route = Some handler
                        \<and> handler ctx' op = (Inl err, ctx'') \<longrightarrow>
                       SDKMessageHandler_DispatchMsg h ctx contractAddr contractIBCPortID msg
                         = (([], [], Some err), ctx''))
                  \<and> (router h ctx' route = None \<longrightarrow>
                       SDKMessageHandler_DispatchMsg h ctx contractAddr contractIBCPortID msg
                         = (([], [], Some (Wrap ErrUnknownRequest
                              (''unrecognized message route: '' @ route @ ''; message''))), ctx')))
               \<and> (LegacyRoute op = None \<longrightarrow>
                    SDKMessageHandler_DispatchMsg h ctx contractAddr contractIBCPortID msg
                      = (([], [], Some (Wrap ErrUnknownRequest
                           (''can't route message '' @ Rendering op))), ctx')))))
      \<and> (handleSdkMessage h ctx' contractAddr op = (Inl err, ctx'') \<longrightarrow>
           SDKMessageHandler_DispatchMsg h ctx contractAddr contractIBCPortID msg
             = (([], [], Some err), ctx'')))
   \<and> (encoders h ctx contractAddr contractIBCPortID msg = (ops, None)
      \<and> handledInOrder h contractAddr ops ctx = (Inr rs, ctx') \<longrightarrow>
      SDKMessageHandler_DispatchMsg h ctx contractAddr contractIBCPortID msg
        = ((concat (map Result_Events rs), map Result_Data rs, None), ctx')
      \<and> length rs = length ops
      \<and> (\<forall>op \<in> set ops. ValidateBasic op = None \<and> set (GetSigners op) \<subseteq> {contractAddr}))"
proof (intro conjI)
  show "encoders h ctx contractAddr contractIBCPortID msg = (ops, Some err) \<longrightarrow>
      SDKMessageHandler_DispatchMsg h ctx contractAddr contractIBCPortID msg
        = (([], [], Some err), ctx)"
    by (simp add: SDKMessageHandler_DispatchMsg_def)
next
  show "encoders h ctx contractAddr contractIBCPortID msg = (ops, None)
      \<and> handledInOrder h contractAddr ops ctx = (Inr rs, ctx') \<longrightarrow>
      SDKMessageHandler_DispatchMsg h ctx contractAddr contractIBCPortID msg
        = ((concat (map Result_Events rs), map Result_Data rs, None), ctx')
      \<and> length rs = length ops
      \<and> (\<forall>op \<in> set ops. ValidateBasic op = None \<and> set (GetSigners op) \<subseteq> {contractAddr})"
  proof (intro impI conjI)
    assume a: "encoders h ctx contractAddr contractIBCPortID msg = (ops, None)
      \<and> handledInOrder h contractAddr ops ctx = (Inr rs, ctx')"
    then show "SDKMessageHandler_DispatchMsg h ctx contractAddr contractIBCPortID msg
        = ((concat (map Result_Events rs), map Result_Data rs, None), ctx')"
      using dispatchLoop_append [of h contractAddr ops "[]" "[]" "[]" ctx]
      by (simp add: SDKMessageHandler_DispatchMsg_def)
    show "length rs = length ops"
      using a handledInOrder_length [of h contractAddr ops ctx rs ctx'] by simp
    show "\<forall>op \<in> set ops. ValidateBasic op = None \<and> set (GetSigners op) \<subseteq> {contractAddr}"
      using a handledInOrder_Inr_checked [of h contractAddr ops ctx rs ctx'] by simp
  qed
next
  show "encoders h ctx contractAddr contractIBCPortID msg = (pre @ op # post, None)
      \<and> handledInOrder h contractAddr pre ctx = (Inr rs, ctx') \<longrightarrow>
        (ValidateBasic op = Some err \<longrightarrow>
           SDKMessageHandler_DispatchMsg h ctx contractAddr contractIBCPortID msg
             = (([], [], Some err), ctx'))
      \<and> (ValidateBasic op = None \<and> acct \<in> set (GetSigners op) \<and> acct \<noteq> contractAddr \<longrightarrow>
           SDKMessageHandler_DispatchMsg h ctx contractAddr contractIBCPortID msg
             = (([], [], Some (Wrap ErrUnauthorized ''contract doesn't have permission'')), ctx'))
      \<and> (ValidateBasic op = None \<and> set (GetSigners op) \<subseteq> {contractAddr} \<longrightarrow>
           (msgRouter h = None \<longrightarrow>
              SDKMessageHandler_DispatchMsg h ctx contractAddr contractIBCPortID msg
                = (([], [], Some (Wrap ErrPanic ''>>> msgRouter is nil!!!'')), ctx'))
         \<and> (\<forall>mr. msgRouter h = Some mr \<longrightarrow>
              (\<forall>handler. mr op = Some handler \<and> handler ctx' op = (Inl err, ctx'') \<longrightarrow>
                 SDKMessageHandler_DispatchMsg h ctx contractAddr contractIBCPortID msg
                   = (([], [], Some err), ctx''))
            \<and> (mr op = None \<longrightarrow>
                 (\<forall>route. LegacyRoute op = Some route \<longrightarrow>
                    (\<forall>handler. router h ctx' route = Some handler
                        \<and> handler ctx' op = (Inl err, ctx'') \<longrightarrow>
                       SDKMessageHandler_DispatchMsg h ctx contractAddr contractIBCPortID msg
                         = (([], [], Some err), ctx''))
                  \<and> (router h ctx' route = None \<longrightarrow>
                       SDKMessageHandler_DispatchMsg h ctx contractAddr contractIBCPortID msg
                         = (([], [], Some (Wrap ErrUnknownRequest
                              (''unrecognized message route: '' @ route @ ''; message''))), ctx')))
               \<and> (LegacyRoute op = None \<longrightarrow>
                    SDKMessageHandler_DispatchMsg h ctx contractAddr contractIBCPortID msg
                      = (([], [], Some (Wrap ErrUnknownRequest
                           (''can't route message '' @ Rendering op))), ctx')))))
      \<and> (handleSdkMessage h ctx' contractAddr op = (Inl err, ctx'') \<longrightarrow>
           SDKMessageHandler_DispatchMsg h ctx contractAddr contractIBCPortID msg
             = (([], [], Some err), ctx''))"
  proof (intro impI)
    assume "encoders h ctx contractAddr contractIBCPortID msg = (pre @ op # post, None)
      \<and> handledInOrder h contractAddr pre ctx = (Inr rs, ctx')"
    then have e: "encoders h ctx contractAddr contractIBCPortID msg = (pre @ op # post, None)"
      and p: "handledInOrder h contractAddr pre ctx = (Inr rs, ctx')"
      by simp_all
    note at = dispatch_fails_at [OF e p]
    have V: "ValidateBasic op = Some err \<longrightarrow>
           SDKMessageHandler_DispatchMsg h ctx contractAddr contractIBCPortID msg
             = (([], [], Some err), ctx')"
      by (auto intro!: at simp add: handleSdkMessage_def)
    have A: "ValidateBasic op = None \<and> acct \<in> set (GetSigners op) \<and> acct \<noteq> contractAddr \<longrightarrow>
           SDKMessageHandler_DispatchMsg h ctx contractAddr contractIBCPortID msg
             = (([], [], Some (Wrap ErrUnauthorized ''contract doesn't have permission'')), ctx')"
    proof
      assume a: "ValidateBasic op = None \<and> acct \<in> set (GetSigners op) \<and> acct \<noteq> contractAddr"
      then have "signerRejected (GetSigners op) contractAddr"
        using signerRejected_iff by blast
      then have "handleSdkMessage h ctx' contractAddr op
          = (Inl (Wrap ErrUnauthorized ''contract doesn't have permission''), ctx')"
        using a by (simp add: handleSdkMessage_def)
      then show "SDKMessageHandler_DispatchMsg h ctx contractAddr contractIBCPortID msg
             = (([], [], Some (Wrap ErrUnauthorized ''contract doesn't have permission'')), ctx')"
        by (rule at)
    qed
    have R: "ValidateBasic op = None \<and> set (GetSigners op) \<subseteq> {contractAddr} \<longrightarrow>
           (msgRouter h = None \<longrightarrow>
              SDKMessageHandler_DispatchMsg h ctx contractAddr contractIBCPortID msg
                = (([], [], Some (Wrap ErrPanic ''>>> msgRouter is nil!!!'')), ctx'))
         \<and> (\<forall>mr. msgRouter h = Some mr \<longrightarrow>
              (\<forall>handler. mr op = Some handler \<and> handler ctx' op = (Inl err, ctx'') \<longrightarrow>
                 SDKMessageHandler_DispatchMsg h ctx contractAddr contractIBCPortID msg
                   = (([], [], Some err), ctx''))
            \<and> (mr op = None \<longrightarrow>
                 (\<forall>route. LegacyRoute op = Some route \<longrightarrow>
                    (\<forall>handler. router h ctx' route = Some handler
                        \<and> handler ctx' op = (Inl err, ctx'') \<longrightarrow>
                       SDKMessageHandler_DispatchMsg h ctx contractAddr contractIBCPortID msg
                         = (([], [], Some err), ctx''))
                  \<and> (router h ctx' route = None \<longrightarrow>
                       SDKMessageHandler_DispatchMsg h ctx contractAddr contractIBCPortID msg
                         = (([], [], Some (Wrap ErrUnknownRequest
                              (''unrecognized message route: '' @ route @ ''; message''))), ctx')))
               \<and> (LegacyRoute op = None \<longrightarrow>
                    SDKMessageHandler_DispatchMsg h ctx contractAddr contractIBCPortID msg
                      = (([], [], Some (Wrap ErrUnknownRequest
                           (''can't route message '' @ Rendering op))), ctx'))))"
    proof
      assume a: "ValidateBasic op = None \<and> set (GetSigners op) \<subseteq> {contractAddr}"
      then have n: "\<not> signerRejected (GetSigners op) contractAddr"
        using signerRejected_iff by blast
      show "(msgRouter h = None \<longrightarrow>
              SDKMessageHandler_DispatchMsg h ctx contractAddr contractIBCPortID msg
                = (([], [], Some (Wrap ErrPanic ''>>> msgRouter is nil!!!'')), ctx'))
         \<and> (\<forall>mr. msgRouter h = Some mr \<longrightarrow>
              (\<forall>handler. mr op = Some handler \<and> handler ctx' op = (Inl err, ctx'') \<longrightarrow>
                 SDKMessageHandler_DispatchMsg h ctx contractAddr contractIBCPortID msg
                   = (([], [], Some err), ctx''))
            \<and> (mr op = None \<longrightarrow>
                 (\<forall>route. LegacyRoute op = Some route \<longrightarrow>
                    (\<forall>handler. router h ctx' route = Some handler
                        \<and> handler ctx' op = (Inl err, ctx'') \<longrightarrow>
                       SDKMessageHandler_DispatchMsg h ctx contractAddr contractIBCPortID msg
                         = (([], [], Some err), ctx''))
                  \<and> (router h ctx' route = None \<longrightarrow>
                       SDKMessageHandler_DispatchMsg h ctx contractAddr contractIBCPortID msg
                         = (([], [], Some (Wrap ErrUnknownRequest
                              (''unrecognized message route: '' @ route @ ''; message''))), ctx')))
               \<and> (LegacyRoute op = None \<longrightarrow>
                    SDKMessageHandler_DispatchMsg h ctx contractAddr contractIBCPortID msg
                      = (([], [], Some (Wrap ErrUnknownRequest
                           (''can't route message '' @ Rendering op))), ctx'))))"
        using a n by (auto intro!: at simp add: handleSdkMessage_def)
    qed
    have G: "handleSdkMessage h ctx' contractAddr op = (Inl err, ctx'') \<longrightarrow>
           SDKMessageHandler_DispatchMsg h ctx contractAddr contractIBCPortID msg
             = (([], [], Some err), ctx'')"
      using at by blast
    from V A R G show "(ValidateBasic op = Some err \<longrightarrow>
           SDKMessageHandler_DispatchMsg h ctx contractAddr contractIBCPortID msg
             = (([], [], Some err), ctx'))
      \<and> (ValidateBasic op = None \<and> acct \<in> set (GetSigners op) \<and> acct \<noteq> contractAddr \<longrightarrow>
           SDKMessageHandler_DispatchMsg h ctx contractAddr contractIBCPortID msg
             = (([], [], Some (Wrap ErrUnauthorized ''contract doesn't have permission'')), ctx'))
      \<and> (ValidateBasic op = None \<and> set (GetSigners op) \<subseteq> {contractAddr} \<longrightarrow>
           (msgRouter h = None \<longrightarrow>
              SDKMessageHandler_DispatchMsg h ctx contractAddr contractIBCPortID msg
                = (([], [], Some (Wrap ErrPanic ''>>> msgRouter is nil!!!'')), ctx'))
         \<and> (\<forall>mr. msgRouter h = Some mr \<longrightarrow>
              (\<forall>handler. mr op = Some handler \<and> handler ctx' op = (Inl err, ctx'') \<longrightarrow>
                 SDKMessageHandler_DispatchMsg h ctx contractAddr contractIBCPortID msg
                   = (([], [], Some err), ctx''))
            \<and> (mr op = None \<longrightarrow>
                 (\<forall>route. LegacyRoute op = Some route \<longrightarrow>
                    (\<forall>handler. router h ctx' route = Some handler
                        \<and> handler ctx' op = (Inl err, ctx'') \<longrightarrow>
                       SDKMessageHandler_DispatchMsg h ctx contractAddr contractIBCPortID msg
                         = (([], [], Some err), ctx''))
                  \<and> (router h ctx' route = None \<longrightarrow>
                       SDKMessageHandler_DispatchMsg h ctx contractAddr contractIBCPortID msg
                         = (([], [], Some (Wrap ErrUnknownRequest
                              (''unrecognized message route: '' @ route @ ''; message''))), ctx')))
               \<and> (LegacyRoute op = None \<longrightarrow>
                    SDKMessageHandler_DispatchMsg h ctx contractAddr contractIBCPortID msg
                      = (([], [], Some (Wrap ErrUnknownRequest
                           (''can't route message '' @ Rendering op))), ctx')))))
      \<and> (handleSdkMessage h ctx' contractAddr op = (Inl err, ctx'') \<longrightarrow>
           SDKMessageHandler_DispatchMsg h ctx contractAddr contractIBCPortID msg
             = (([], [], Some err), ctx''))"
      by blast
  qed
qed

theorem sdk_dispatch_all_or_nothing_witness:
  "SDKMessageHandler_DispatchMsg (exSDK True []) [] exContract ''wasm.C1'' exBurnMsg
     = (([], [], Some ErrUnknownMsg), [])
   \<and> SDKMessageHandler_DispatchMsg
       (exSDK True [exOp ''/new'' [exContract] None, exInvalidOp, exOp ''/new'' [exContract] None])
       [] exContract ''wasm.C1'' exSendMsg
     = (([], [], Some (ErrOther ''invalid amount'')), [Executed ''service:/new''])
   \<and> SDKMessageHandler_DispatchMsg
       (exSDK True [exOp ''/new'' [exContract] None, exOp ''/new'' [exStranger] None])
       [] exContract ''wasm.C1'' exSendMsg
     = (([], [], Some (Wrap ErrUnauthorized ''contract doesn't have permission'')),
        [Executed ''service:/new''])
   \<and> SDKMessageHandler_DispatchMsg
       (exSDK True [exOp ''/new'' [exContract] None, exOp ''/other'' [exContract] (Some ''gone''),
                    exOp ''/new'' [exContract] None])
       [] exContract ''wasm.C1'' exSendMsg
     = (([], [], Some (Wrap ErrUnknownRequest ''unrecognized message route: gone; message'')),
        [Executed ''service:/new''])
   \<and> SDKMessageHandler_DispatchMsg
       (exSDK False [exOp ''/new'' [exContract] None])
       [] exContract ''wasm.C1'' exSendMsg
     = (([], [], Some (Wrap ErrPanic ''>>> msgRouter is nil!!!'')), [])
   \<and> SDKMessageHandler_DispatchMsg
       (exSDKRefusing [exOp ''/new'' [exContract] None])
       [] exContract ''wasm.C1'' exSendMsg
     = (([], [], Some (ErrOther ''insufficient funds'')), [Executed ''refused:/new''])
   \<and> SDKMessageHandler_DispatchMsg
       (exSDK True [exOp ''/new'' [exContract] None, exOp ''/other'' [exContract] (Some ''old'')])
       [] exContract ''wasm.C1'' exSendMsg
     = (([(''/new'', []), (''/other'', [])], [[4], [6]], None),
        [Executed ''service:/new'', Executed ''legacy:/other''])"
proof -
  let ?new = "exOp ''/new'' [exContract] None"
  let ?gone = "exOp ''/other'' [exContract] (Some ''gone'')"
  let ?old = "exOp ''/other'' [exContract] (Some ''old'')"
  let ?stranger = "exOp ''/new'' [exStranger] None"
  note defs = handleSdkMessage_def Equals_def sdk_defs exSendMsg_def exBurnMsg_def
    exSDKRefusing_def exRefuse_def exInvalidOp_def exStranger_def exContract_def
  have 1: "SDKMessageHandler_DispatchMsg (exSDK True []) [] exContract ''wasm.C1'' exBurnMsg
     = (([], [], Some ErrUnknownMsg), [])"
    using sdk_dispatch_all_or_nothing [where h = "exSDK True []" and ctx = "[]"
        and contractAddr = exContract and contractIBCPortID = "''wasm.C1''" and msg = exBurnMsg
        and ops = "[]" and err = ErrUnknownMsg]
    by (simp add: defs)
  have 2: "SDKMessageHandler_DispatchMsg (exSDK True [?new, exInvalidOp, ?new])
       [] exContract ''wasm.C1'' exSendMsg
     = (([], [], Some (ErrOther ''invalid amount'')), [Executed ''service:/new''])"
    using sdk_dispatch_all_or_nothing [where h = "exSDK True [?new, exInvalidOp, ?new]"
        and ctx = "[]" and contractAddr = exContract and contractIBCPortID = "''wasm.C1''"
        and msg = exSendMsg and pre = "[?new]" and op = exInvalidOp and post = "[?new]"
        and rs = "[exResult ''/new'']" and ctx' = "[Executed ''service:/new'']"
        and err = "ErrOther ''invalid amount''"]
    by (simp add: defs)
  have 3: "SDKMessageHandler_DispatchMsg (exSDK True [?new, ?stranger])
       [] exContract ''wasm.C1'' exSendMsg
     = (([], [], Some (Wrap ErrUnauthorized ''contract doesn't have permission'')),
        [Executed ''service:/new''])"
    using sdk_dispatch_all_or_nothing [where h = "exSDK True [?new, ?stranger]"
        and ctx = "[]" and contractAddr = exContract and contractIBCPortID = "''wasm.C1''"
        and msg = exSendMsg and pre = "[?new]" and op = ?stranger and post = "[]"
        and rs = "[exResult ''/new'']" and ctx' = "[Executed ''service:/new'']"
        and acct = exStranger]
    by (simp add: defs)
  have 4: "SDKMessageHandler_DispatchMsg (exSDK True [?new, ?gone, ?new])
       [] exContract ''wasm.C1'' exSendMsg
     = (([], [], Some (Wrap ErrUnknownRequest ''unrecognized message route: gone; message'')),
        [Executed ''service:/new''])"
    using sdk_dispatch_all_or_nothing [where h = "exSDK True [?new, ?gone, ?new]"
        and ctx = "[]" and contractAddr = exContract and contractIBCPortID = "''wasm.C1''"
        and msg = exSendMsg and pre = "[?new]" and op = ?gone and post = "[?new]"
        and rs = "[exResult ''/new'']" and ctx' = "[Executed ''service:/new'']"]
    by (simp add: defs)
  have 5: "SDKMessageHandler_DispatchMsg (exSDK False [?new]) [] exContract ''wasm.C1'' exSendMsg
     = (([], [], Some (Wrap ErrPanic ''>>> msgRouter is nil!!!'')), [])"
    using sdk_dispatch_all_or_nothing [where h = "exSDK False [?new]"
        and ctx = "[]" and contractAddr = exContract and contractIBCPortID = "''wasm.C1''"
        and msg = exSendMsg and pre = "[]" and op = ?new and post = "[]"
        and rs = "[]" and ctx' = "[]"]
    by (simp add: defs)
  have 6: "SDKMessageHandler_DispatchMsg (exSDKRefusing [?new]) [] exContract ''wasm.C1'' exSendMsg
     = (([], [], Some (ErrOther ''insufficient funds'')), [Executed ''refused:/new''])"
    using sdk_dispatch_all_or_nothing [where h = "exSDKRefusing [?new]"
        and ctx = "[]" and contractAddr = exContract and contractIBCPortID = "''wasm.C1''"
        and msg = exSendMsg and pre = "[]" and op = ?new and post = "[]"
        and rs = "[]" and ctx' = "[]" and err = "ErrOther ''insufficient funds''"
        and ctx'' = "[Executed ''refused:/new'']"]
    by (simp add: defs)
  have 7: "SDKMessageHandler_DispatchMsg (exSDK True [?new, ?old]) [] exContract ''wasm.C1'' exSendMsg
     = (([(''/new'', []), (''/other'', [])], [[4], [6]], None),
        [Executed ''service:/new'', Executed ''legacy:/other''])"
    using sdk_dispatch_all_or_nothing [where h = "exSDK True [?new, ?old]"
        and ctx = "[]" and contractAddr = exContract and contractIBCPortID = "''wasm.C1''"
        and msg = exSendMsg and ops = "[?new, ?old]"
        and rs = "[exResult ''/new'', exResult ''/other'']"
        and ctx' = "[Executed ''service:/new'', Executed ''legacy:/other'']"]
    by (simp add: defs)
  from 1 2 3 4 5 6 7 show ?thesis by simp
qed

end
